theory Spec2Isabelle
  imports Main
begin

section \<open>Strings\<close>

text \<open>JavaScript's \<^verbatim>\<open>s.endsWith(t)\<close> and \<^verbatim>\<open>s.includes(t)\<close> on strings.\<close>

definition endsWith :: "string \<Rightarrow> string \<Rightarrow> bool" where
  "endsWith s t = (length t \<le> length s \<and> drop (length s - length t) s = t)"

fun str_includes :: "string \<Rightarrow> string \<Rightarrow> bool" where
  "str_includes [] t = (t = [])"
| "str_includes (c # cs) t = (take (length t) (c # cs) = t \<or> str_includes cs t)"

text \<open>A value that may be \<^verbatim>\<open>undefined\<close> is an option; a string is truthy when it is
  defined and not empty; a template literal prints \<^verbatim>\<open>undefined\<close> for a missing value.\<close>

definition truthy :: "string option \<Rightarrow> bool" where
  "truthy v = (case v of None \<Rightarrow> False | Some s \<Rightarrow> s \<noteq> [])"

definition interpolate :: "string option \<Rightarrow> string" where
  "interpolate v = (case v of None \<Rightarrow> ''undefined'' | Some s \<Rightarrow> s)"

section \<open>Errors\<close>

text \<open>The exception classes of \<^verbatim>\<open>amazonqGumby/errors\<close> that the modelled functions raise,
  \<^verbatim>\<open>TransformByQStoppedError\<close> of the model module, and plain \<^verbatim>\<open>Error\<close>.
  \<open>Error m\<close> is \<^verbatim>\<open>new Error(m)\<close>; \<open>ErrorAbout p e\<close> is a new plain \<^verbatim>\<open>Error\<close> whose
  message is the prefix \<open>p\<close> followed by the text of the caught exception \<open>e\<close>
  (\<^verbatim>\<open>new Error(p + e)\<close> or \<^verbatim>\<open>Error(p + e.message)\<close>).\<close>

datatype error =
    NoOpenProjectsError
  | NoJavaProjectsFoundError
  | NoMavenOrGradleJavaProjectsFoundError
  | ZipExceedsSizeLimitError
  | JobStoppedError "string option"
  | TransformByQStoppedError
  | Error string
  | ErrorAbout string error

section \<open>Constants\<close>

text \<open>The constants of \<^verbatim>\<open>codewhisperer/models/constants\<close> and the status
  \<^verbatim>\<open>TransformByQStatus.WaitingUserInput\<close> that the modelled functions use. They are
  declared in another module and are parameters here.\<close>

record constants =
  validStatesForBuildSucceeded :: "string list"
  validStatesForPlanGenerated :: "string list"
  pausedStates :: "string list"
  failureStates :: "string list"
  waitingUserInput :: string
  transformationJobPollingIntervalSeconds :: nat
  transformationJobTimeoutSeconds :: nat
  uploadZipSizeLimitInBytes :: nat
  failedToStartJobMonthlyLimitNotification :: string
  failedToStartJobMonthlyLimitChatMessage :: string
  failedToStartJobLinesLimitNotification :: string
  failedToStartJobLinesLimitChatMessage :: string
  failedToCompleteJobGenericChatMessage :: string
  failedToCompleteJobGenericNotification :: string
  projectSizeTooLargeNotification :: string
  projectSizeTooLargeChatMessage :: string
  noPomXmlOrBuildGradleFoundNotification :: string
  JDK8VersionNumber :: string
  JDK11VersionNumber :: string

section \<open>The session state and its environment\<close>

text \<open>The enumerations \<^verbatim>\<open>BuildSystem\<close> and \<^verbatim>\<open>StepProgress\<close> of the model module, as far
  as the modelled functions tell their values apart: a build system is Maven, Gradle or
  something else, a step of the plan has succeeded or not yet.\<close>

datatype buildSystem = Maven | Gradle | Unknown

datatype stepProgress = NotStarted | Succeeded

text \<open>The manifest written into the upload archive (\<^verbatim>\<open>ZipManifest\<close>), and whether the
  object is an instance of \<^verbatim>\<open>ZipManifest\<close> or of the human-in-the-loop manifest class.\<close>

record zipManifest =
  isZipManifest :: bool
  buildTool :: "buildSystem option"
  dependenciesRoot :: "string option"
  hilCapabilities :: "string list option"

text \<open>What the functions do to the outside, in order: calls of the backend, of the editor
  and of the file system, sleeps, telemetry. Log lines are left out. The status call
  \<open>GetCodeTransformation\<close> is recorded with the status it answers (none when it throws);
  \<open>ProcessAwaitingClientActionStatus\<close> marks an entry into the client-side build round.\<close>

datatype event =
    CheckCancelled bool
  | Sleep nat
  | GetCodeTransformation string "string option"
  | JobStatusChanged string string
  | ProcessAwaitingClientActionStatus string
  | GetCodeTransformationPlan string
  | ExtractClientInstructions string string
  | CopyAndPatch string
  | AskBuildAuthorization
  | StopTransformByQ string
  | StopCodeTransformation string
  | PostJobCleanup
  | SpawnSync string "string list" string
  | WriteAndShowBuildLogs string
  | UpdateManifestFile int
  | UploadPayload string
  | ResumeTransformation string string
  | ZipAddLocalFile "string list" "string list"
  | ZipAddManifest zipManifest
  | WriteLogs
  | ZipAddLogFile
  | WriteZipFile
  | RemoveDirectory "string list"
  | RemoveLogFile
  | ShowErrorMessage string
  | TransformationFinished string
  | EmitValidateProject
  | FindFiles string string
  | CheckBuildSystem string
  | Javap string
  | ConsoleLog string

text \<open>The fields of \<^verbatim>\<open>transformByQState\<close> and \<^verbatim>\<open>jobPlanProgress\<close> that the modelled
  functions read or write, and the trace of events so far. The cancellation flag is set
  from outside (by the user, through the stop command) while a function is suspended, so
  it is an input: \<open>cancelledAtRead w n\<close> is what \<^verbatim>\<open>transformByQState.isCancelled()\<close>
  answers when it is read for the \<open>n\<close>-th time, and \<open>flagReads\<close> counts the reads.\<close>

record world =
  cancelledAtRead :: "nat \<Rightarrow> bool"
  flagReads :: nat
  polledJobStatus :: string
  jobFailureErrorNotification :: "string option"
  jobFailureErrorChatMessage :: "string option"
  jobFailureMetadata :: string
  waitingForClientSideBuildAuthorization :: bool
  clientSideBuildSelection :: string
  jobId :: string
  projectCopyFilePath :: string
  buildSystem :: buildSystem
  buildSystemCommand :: string
  buildCode :: stepProgress
  trace :: "event list"

definition emit :: "event \<Rightarrow> world \<Rightarrow> world" where
  "emit ev w = w\<lparr>trace := trace w @ [ev]\<rparr>"

definition sleep :: "nat \<Rightarrow> world \<Rightarrow> world" where
  "sleep ms w = emit (Sleep ms) w"

definition setJobFailureMetadata :: "string \<Rightarrow> world \<Rightarrow> world" where
  "setJobFailureMetadata m w = w\<lparr>jobFailureMetadata := m\<rparr>"

definition requestIdMetadata :: "string option \<Rightarrow> string" where
  "requestIdMetadata rid = '' (request ID: '' @ interpolate rid @ '')''"

definition throwIfCancelled :: "world \<Rightarrow> (error + unit) \<times> world" where
  "throwIfCancelled w =
     (let c = cancelledAtRead w (flagReads w);
          w1 = emit (CheckCancelled c) (w\<lparr>flagReads := Suc (flagReads w)\<rparr>)
      in if c then (Inl TransformByQStoppedError, w1) else (Inr (), w1))"

section \<open>Stopping a job\<close>

text \<open>The answer of the backend to \<^verbatim>\<open>codeModernizerStopCodeTransformation\<close>: the call
  throws (\<open>Inl\<close> the message), or it returns a response, which may be undefined and
  carries the request id.\<close>

type_synonym stopBackend = "string \<Rightarrow> string + string option option"

definition stopJob :: "stopBackend \<Rightarrow> string \<Rightarrow> world \<Rightarrow> (error + unit) \<times> world" where
  "stopJob backend jid w =
     (if jid = [] then (Inr (), w)
      else
        let w1 = emit (StopCodeTransformation jid) w in
        case backend jid of
          Inl msg \<Rightarrow> (Inl (Error ''Stop job failed''), w1)
        | Inr None \<Rightarrow> (Inr (), w1)
        | Inr (Some rid) \<Rightarrow>
            (if truthy rid then (Inr (), setJobFailureMetadata (requestIdMetadata rid) w1)
             else (Inr (), w1)))"

section \<open>Project validation\<close>

record workspaceFolder =
  folderName :: string
  fsPath :: string

datatype jdkVersion = JDK8 | JDK11 | UNSUPPORTED

record transformationCandidateProject =
  name :: string
  path :: string
  JDKVersion :: "jdkVersion option"

text \<open>\<^verbatim>\<open>vscode.workspace.workspaceFolders\<close> is undefined or a list of folders.\<close>

definition getOpenProjects ::
  "workspaceFolder list option \<Rightarrow> error + transformationCandidateProject list" where
  "getOpenProjects folders =
     (case folders of
        None \<Rightarrow> Inl NoOpenProjectsError
      | Some fs \<Rightarrow>
          Inr (map (\<lambda>folder. \<lparr>name = folderName folder, path = fsPath folder, JDKVersion = None\<rparr>) fs))"

text \<open>\<^verbatim>\<open>s.indexOf(t)\<close> (\<open>-1\<close> when \<open>t\<close> does not occur), \<^verbatim>\<open>s.slice(a, b)\<close> for
  \<open>0 \<le> a\<close>, and \<^verbatim>\<open>s.trim()\<close>.\<close>

fun indexOf :: "string \<Rightarrow> string \<Rightarrow> int" where
  "indexOf [] t = (if t = [] then 0 else - 1)"
| "indexOf (c # cs) t =
     (if take (length t) (c # cs) = t then 0
      else (let i = indexOf cs t in if i < 0 then - 1 else i + 1))"

definition slice :: "string \<Rightarrow> int \<Rightarrow> int \<Rightarrow> string" where
  "slice s a b = take (nat (b - a)) (drop (nat a) s)"

definition isWhiteSpace :: "char \<Rightarrow> bool" where
  "isWhiteSpace c = (c \<in> set [CHR '' '', CHR 0x09, CHR 0x0A, CHR 0x0B, CHR 0x0C, CHR 0x0D])"

definition trim :: "string \<Rightarrow> string" where
  "trim s = rev (dropWhile isWhiteSpace (rev (dropWhile isWhiteSpace s)))"

text \<open>The workspace's files: for a folder path, the files below it, each as the list of
  the components of its relative path. \<^verbatim>\<open>vscode.workspace.findFiles\<close> with the include
  pattern \<^verbatim>\<open>**/*<ext>\<close>, the exclude pattern \<^verbatim>\<open>**/node_modules/**\<close> and a maximal
  number of results.\<close>

type_synonym fileSystem = "string \<Rightarrow> string list list"

definition matchesPattern :: "string \<Rightarrow> string list \<Rightarrow> bool" where
  "matchesPattern ext f = (f \<noteq> [] \<and> endsWith (last f) ext \<and> ''node_modules'' \<notin> set (butlast f))"

definition findFiles :: "fileSystem \<Rightarrow> string \<Rightarrow> string \<Rightarrow> nat \<Rightarrow> string list list" where
  "findFiles fs base ext maxResults = take maxResults (filter (matchesPattern ext) (fs base))"

text \<open>The result of \<^verbatim>\<open>spawnSync\<close>: the exit status (null when the process did not
  exit), the captured output, and the spawn error with its code, when there is one.\<close>

record spawnResult =
  status :: "int option"
  stdout :: string
  stderr :: string
  spawnError :: "string option option"

definition getJavaProjects ::
  "fileSystem \<Rightarrow> transformationCandidateProject list \<Rightarrow>
   transformationCandidateProject list \<times> event list" where
  "getJavaProjects fs projects =
     (filter (\<lambda>project. length (findFiles fs (path project) ''.java'' 1) > 0) projects,
      map (\<lambda>project. FindFiles (path project) ''**/*.java'') projects)"

text \<open>\<^verbatim>\<open>checkBuildSystem\<close> belongs to the file handler module and is a parameter: the
  build systems it finds in a folder.\<close>

definition getMavenOrGradleJavaProjects ::
  "(string \<Rightarrow> buildSystem list) \<Rightarrow> transformationCandidateProject list \<Rightarrow>
   transformationCandidateProject list \<times> event list" where
  "getMavenOrGradleJavaProjects checkBuildSystem javaProjects =
     (filter (\<lambda>project. Maven \<in> set (checkBuildSystem (path project)) \<or>
                        Gradle \<in> set (checkBuildSystem (path project))) javaProjects,
      map (\<lambda>project. CheckBuildSystem (path project)) javaProjects)"

definition javapErrorReason :: "spawnResult \<Rightarrow> string" where
  "javapErrorReason r =
     (if stdout r \<noteq> [] then ''JavapExecutionError'' else ''JavapSpawnError'') @
     (case spawnError r of
        None \<Rightarrow> []
      | Some code \<Rightarrow> ''-'' @ (case code of None \<Rightarrow> ''UNKNOWN'' | Some c \<Rightarrow> c))"

definition detectJavaVersion :: "constants \<Rightarrow> spawnResult \<Rightarrow> jdkVersion option \<times> event list" where
  "detectJavaVersion c r =
     (if status r \<noteq> Some 0 then (None, [ConsoleLog (javapErrorReason r)])
      else
        let majorVersionIndex = indexOf (stdout r) ''major version: '';
            javaVersion = trim (slice (stdout r) (majorVersionIndex + 15) (majorVersionIndex + 17))
        in if javaVersion = JDK8VersionNumber c then (Some JDK8, [])
           else if javaVersion = JDK11VersionNumber c then (Some JDK11, [])
           else (Some UNSUPPORTED, []))"

text \<open>The path handed to \<^verbatim>\<open>javap\<close> is the first class file found, as an absolute path.\<close>

definition fsPathOf :: "string \<Rightarrow> string list \<Rightarrow> string" where
  "fsPathOf base f = base @ concat (map (\<lambda>x. ''/'' @ x) f)"

fun getProjectsValidToTransform ::
  "constants \<Rightarrow> fileSystem \<Rightarrow> (string \<Rightarrow> spawnResult) \<Rightarrow> transformationCandidateProject list \<Rightarrow>
   transformationCandidateProject list \<times> event list" where
  "getProjectsValidToTransform c fs javap [] = ([], [])"
| "getProjectsValidToTransform c fs javap (project # rest) =
     (let compiledJavaFiles = findFiles fs (path project) ''.class'' 1;
          (detectedJavaVersion, evs) =
            (case compiledJavaFiles of
               [] \<Rightarrow> (None, [])
             | f # _ \<Rightarrow>
                 (let classFilePath = fsPathOf (path project) f;
                      (v, es) = detectJavaVersion c (javap classFilePath)
                  in (v, Javap classFilePath # es)));
          (projects, evs') = getProjectsValidToTransform c fs javap rest
      in (project\<lparr>JDKVersion := detectedJavaVersion\<rparr> # projects,
          FindFiles (path project) ''**/*.class'' # evs @ evs'))"

definition validateOpenProjects ::
  "constants \<Rightarrow> fileSystem \<Rightarrow> (string \<Rightarrow> buildSystem list) \<Rightarrow> (string \<Rightarrow> spawnResult) \<Rightarrow>
   transformationCandidateProject list \<Rightarrow> bool \<Rightarrow>
   (error + transformationCandidateProject list) \<times> event list" where
  "validateOpenProjects c fs checkBuildSystem javap projects onProjectFirstOpen =
     (let (javaProjects, evs1) = getJavaProjects fs projects in
      if length javaProjects = 0 then (Inl NoJavaProjectsFoundError, evs1)
      else
        let (mavenOrGradleJavaProjects, evs2) = getMavenOrGradleJavaProjects checkBuildSystem javaProjects in
        if length mavenOrGradleJavaProjects = 0 then
          (Inl NoMavenOrGradleJavaProjectsFoundError,
           evs1 @ evs2 @
           (if \<not> onProjectFirstOpen
            then [ShowErrorMessage (noPomXmlOrBuildGradleFoundNotification c), EmitValidateProject]
            else []))
        else
          let (projectsValidToTransform, evs3) =
                getProjectsValidToTransform c fs javap mavenOrGradleJavaProjects
          in (Inr projectsValidToTransform, evs1 @ evs2 @ evs3))"

section \<open>Sequencing\<close>

text \<open>A function that may throw returns the exception (\<open>Inl\<close>) or its value, and the
  state it leaves. \<open>andThen\<close> runs the rest after a normal return; \<open>catch\<close> is a
  \<^verbatim>\<open>catch\<close> block.\<close>

definition andThen ::
  "(error + 'a) \<times> world \<Rightarrow> ('a \<Rightarrow> world \<Rightarrow> (error + 'b) \<times> world) \<Rightarrow> (error + 'b) \<times> world" where
  "andThen r f = (case r of (Inl e, w) \<Rightarrow> (Inl e, w) | (Inr x, w) \<Rightarrow> f x w)"

definition catch ::
  "(error + 'a) \<times> world \<Rightarrow> (error \<Rightarrow> world \<Rightarrow> (error + 'a) \<times> world) \<Rightarrow> (error + 'a) \<times> world" where
  "catch r h = (case r of (Inl e, w) \<Rightarrow> h e w | (Inr x, w) \<Rightarrow> (Inr x, w))"

section \<open>The client-side build round\<close>

record downloadArtifact =
  downloadArtifactType :: "string option"
  downloadArtifactId :: "string option"

record progressUpdate =
  updateName :: string
  updateStatus :: string
  downloadArtifacts :: "downloadArtifact list option"

record transformationStep =
  stepName :: string
  progressUpdates :: "progressUpdate list option"

record clientInstructions =
  capability :: string
  buildCommand :: string
  patchFilePath :: string

datatype userChoice = Yes | No | Dismissed

text \<open>What the outside answers during one round: the plan call (it throws, or returns a
  request id and the steps), the download of the client instructions, the copy of the
  project and the patch, the user at the authorization prompt, the build process, the
  upload of the build result (\<^verbatim>\<open>uploadPayload\<close>, taken as one call that returns or throws),
  the resume call (it throws or returns a status, or nothing), and the backend's stop call.\<close>

record hilEnv =
  planResponse :: "string + (string option \<times> transformationStep list)"
  clientInstructionsResponse :: "string + clientInstructions"
  copyAndPatchFailure :: "string option"
  userAnswer :: userChoice
  spawn :: spawnResult
  uploadPayloadFailure :: "error option"
  resumeResponse :: "string + string option"
  stopResponse :: stopBackend

definition firstArtifact :: "progressUpdate \<Rightarrow> downloadArtifact option" where
  "firstArtifact u = (case downloadArtifacts u of None \<Rightarrow> None | Some [] \<Rightarrow> None | Some (a # _) \<Rightarrow> Some a)"

definition signalsDownload :: "progressUpdate \<Rightarrow> bool" where
  "signalsDownload u =
     (case firstArtifact u of
        None \<Rightarrow> False
      | Some a \<Rightarrow> truthy (downloadArtifactType a) \<or>
                  (truthy (downloadArtifactId a) \<and> updateStatus u = ''AWAITING_CLIENT_ACTION''))"

fun findDownloadArtifactStep ::
  "transformationStep list \<Rightarrow> (transformationStep \<times> progressUpdate) option" where
  "findDownloadArtifactStep [] = None"
| "findDownloadArtifactStep (step # steps) =
     (case progressUpdates step of
        None \<Rightarrow> findDownloadArtifactStep steps
      | Some us \<Rightarrow>
          (case find signalsDownload us of
             None \<Rightarrow> findDownloadArtifactStep steps
           | Some u \<Rightarrow> Some (step, u)))"

definition getTransformationSteps ::
  "hilEnv \<Rightarrow> string \<Rightarrow> bool \<Rightarrow> world \<Rightarrow> (error + transformationStep list) \<times> world" where
  "getTransformationSteps h jid handleThrottleFlag w =
     (let w1 = (if handleThrottleFlag then sleep 2000 w else w);
          w2 = emit (GetCodeTransformationPlan jid) w1
      in case planResponse h of
           Inl msg \<Rightarrow> (Inl (Error msg), w2)
         | Inr (rid, steps) \<Rightarrow>
             (Inr steps, if truthy rid then setJobFailureMetadata (requestIdMetadata rid) w2 else w2))"

definition pollingIntervalMs :: "constants \<Rightarrow> nat" where
  "pollingIntervalMs c = transformationJobPollingIntervalSeconds c * 1000"

text \<open>The result is undefined (\<open>None\<close>) unless the update found awaits a client action;
  then it is the id of the client instructions, which may itself be undefined.\<close>

definition getClientInstructionArtifactId ::
  "constants \<Rightarrow> hilEnv \<Rightarrow> string \<Rightarrow> world \<Rightarrow> (error + string option option) \<times> world" where
  "getClientInstructionArtifactId c h jid w =
     andThen (getTransformationSteps h jid False (sleep (pollingIntervalMs c) w))
       (\<lambda>plan_status w1.
          case findDownloadArtifactStep plan_status of
            None \<Rightarrow> (Inr None, w1)
          | Some (step, u) \<Rightarrow>
              if updateStatus u = ''AWAITING_CLIENT_ACTION'' then
                (let artifact = firstArtifact u;
                     download_artifact_type = (case artifact of None \<Rightarrow> None | Some a \<Rightarrow> downloadArtifactType a)
                 in if download_artifact_type \<noteq> Some ''CLIENT_INSTRUCTIONS'' then
                      (Inl (Error (''Received unexpected downloadArtifactType: '' @
                                   interpolate download_artifact_type @ ''for jobId: '' @ jid)), w1)
                    else
                      (Inr (Some (case artifact of None \<Rightarrow> None | Some a \<Rightarrow> downloadArtifactId a)), w1))
              else (Inr None, w1))"

text \<open>\<^verbatim>\<open>extractClientInstructions\<close> downloads the archive and reads its manifest; the
  network and the file system decide what comes out.\<close>

definition extractClientInstructions ::
  "hilEnv \<Rightarrow> string \<Rightarrow> string \<Rightarrow> world \<Rightarrow> (error + clientInstructions) \<times> world" where
  "extractClientInstructions h jid artifactId w =
     (let w1 = emit (ExtractClientInstructions jid artifactId) w in
      case clientInstructionsResponse h of
        Inl msg \<Rightarrow> (Inl (Error msg), w1)
      | Inr ci \<Rightarrow> (Inr ci, w1))"

definition resumeTransformationJob ::
  "hilEnv \<Rightarrow> string \<Rightarrow> string \<Rightarrow> world \<Rightarrow> (error + string option) \<times> world" where
  "resumeTransformationJob h jid userActionStatus w =
     (let w1 = emit (ResumeTransformation jid userActionStatus) w in
      case resumeResponse h of
        Inl msg \<Rightarrow> (Inl (Error (''Resuming the job failed due to: '' @ msg)), w1)
      | Inr st \<Rightarrow> (Inr st, w1))"

text \<open>Modelled from the spec: \<^verbatim>\<open>stopTransformByQ\<close> of the commands module, whose source
  is missing. On a stop request it calls the backend stop operation and then runs the
  post-job cleanup unconditionally, even if the stop call fails.\<close>

definition stopTransformByQ :: "hilEnv \<Rightarrow> string \<Rightarrow> world \<Rightarrow> (error + unit) \<times> world" where
  "stopTransformByQ h jid w =
     (let (r, w1) = stopJob (stopResponse h) jid (emit (StopTransformByQ jid) w)
      in (Inr (), emit PostJobCleanup w1))"

definition joinArgs :: "string list \<Rightarrow> string" where
  "joinArgs args = (case args of [] \<Rightarrow> [] | a # as \<Rightarrow> a @ concat (map (\<lambda>x. '' '' @ x) as))"

text \<open>The second half of the build callback (from the reset of the authorization flag on):
  run the build, show its log, and report a build that exited to the backend. The build
  error log kept for display is a log and is left out.\<close>

definition spawnClientSideBuild ::
  "hilEnv \<Rightarrow> string \<Rightarrow> string \<Rightarrow> string \<Rightarrow> string list \<Rightarrow> world \<Rightarrow> (error + unit) \<times> world" where
  "spawnClientSideBuild h modulePath clientInstructionArtifactId baseCommand args w =
     (let w1 = w\<lparr>waitingForClientSideBuildAuthorization := False\<rparr>;
          argString = joinArgs args;
          spawnResult = spawn h;
          w2 = emit (SpawnSync baseCommand args modulePath) w1;
          w3 = emit (WriteAndShowBuildLogs clientInstructionArtifactId) w2
      in case status spawnResult of
           Some exitCode \<Rightarrow>
             (let w4 = emit (UploadPayload clientInstructionArtifactId) (emit (UpdateManifestFile exitCode) w3)
              in case uploadPayloadFailure h of
                   Some e \<Rightarrow> (Inl e, w4)
                 | None \<Rightarrow> andThen (resumeTransformationJob h (jobId w4) ''COMPLETED'' w4) (\<lambda>_ w5. (Inr (), w5)))
         | None \<Rightarrow> (Inl (Error (baseCommand @ '' '' @ argString @ ''  exit code is null'')), w3))"

text \<open>The callback that \<^verbatim>\<open>runClientSideBuild\<close> hands to the telemetry span
  \<^verbatim>\<open>codeTransform_localBuildProject\<close>.\<close>

definition runClientSideBuildCallback ::
  "hilEnv \<Rightarrow> string \<Rightarrow> string \<Rightarrow> world \<Rightarrow> (error + unit) \<times> world" where
  "runClientSideBuildCallback h modulePath clientInstructionArtifactId w =
     (let baseCommand = buildSystemCommand w;
          args = (if buildSystem w = Maven then [''test''] else [''TO-DO:something-for-gradle''])
      in if clientSideBuildSelection w = ''Verify Each Iteration'' \<and>
            \<not> waitingForClientSideBuildAuthorization w then
           (let w1 = emit AskBuildAuthorization (w\<lparr>waitingForClientSideBuildAuthorization := True\<rparr>)
            in case userAnswer h of
                 No \<Rightarrow>
                   andThen (stopTransformByQ h (jobId w1) (w1\<lparr>waitingForClientSideBuildAuthorization := False\<rparr>))
                     (\<lambda>_ w2. (Inl (Error ''Cannot perform intermediate client-side build since intermediate verification prompt was rejected''), w2))
               | Dismissed \<Rightarrow> (Inr (), w1\<lparr>waitingForClientSideBuildAuthorization := True\<rparr>)
               | Yes \<Rightarrow> spawnClientSideBuild h modulePath clientInstructionArtifactId baseCommand args w1)
         else spawnClientSideBuild h modulePath clientInstructionArtifactId baseCommand args w)"

text \<open>The span's \<^verbatim>\<open>run\<close> is taken to run the callback to its end and to pass on what it
  raises.\<close>

definition runClientSideBuild :: "hilEnv \<Rightarrow> string \<Rightarrow> string \<Rightarrow> world \<Rightarrow> (error + unit) \<times> world" where
  "runClientSideBuild h modulePath clientInstructionArtifactId w =
     catch (runClientSideBuildCallback h modulePath clientInstructionArtifactId w)
       (\<lambda>err w1. (Inl (ErrorAbout ''Client-side build failed: '' err), w1))"

definition processClientInstructions ::
  "hilEnv \<Rightarrow> string \<Rightarrow> clientInstructions \<Rightarrow> string \<Rightarrow> world \<Rightarrow> (error + unit) \<times> world" where
  "processClientInstructions h jid ci clientInstructionArtifactId w =
     (let w1 = emit (CopyAndPatch (patchFilePath ci)) w in
      case copyAndPatchFailure h of
        Some msg \<Rightarrow> (Inl (Error msg), w1)
      | None \<Rightarrow>
          catch (runClientSideBuild h (projectCopyFilePath w1) clientInstructionArtifactId w1)
            (\<lambda>err w2. (Inl (ErrorAbout ''Client-side build failed: '' err), w2)))"

definition processAwaitingClientActionStatus ::
  "constants \<Rightarrow> hilEnv \<Rightarrow> string \<Rightarrow> world \<Rightarrow> (error + unit) \<times> world" where
  "processAwaitingClientActionStatus c h jid w =
     andThen (throwIfCancelled (emit (ProcessAwaitingClientActionStatus jid) w)) (\<lambda>_ w1.
     andThen (getClientInstructionArtifactId c h jid (sleep (pollingIntervalMs c) w1)) (\<lambda>transformationStatus w2.
       case transformationStatus of
         None \<Rightarrow> (Inr (), w2)
       | Some None \<Rightarrow> (Inl (Error ''Failed to get client instruction artifact ID''), w2)
       | Some (Some clientInstructionArtifactId) \<Rightarrow>
           if clientInstructionArtifactId = [] then
             (Inl (Error ''Failed to get client instruction artifact ID''), w2)
           else
             andThen (extractClientInstructions h jid clientInstructionArtifactId (sleep (pollingIntervalMs c) w2))
               (\<lambda>ci w3.
                  catch (processClientInstructions h jid ci clientInstructionArtifactId
                           (sleep (pollingIntervalMs c) w3))
                    (\<lambda>err w4. (Inl (ErrorAbout ''process client instructions failed: '' err), w4)))))"

section \<open>Polling the job\<close>

record jobResponse =
  jobStatus :: string
  reason :: "string option"
  requestId :: "string option"

text \<open>What the outside answers during one iteration of the poll loop: the status call
  throws or returns, and the answers for the client-side build round, should it run.\<close>

record pollStep =
  getTransformation :: "string + jobResponse"
  hil :: hilEnv

text \<open>Lines 618 to 643: the optional failure reason sets the failure messages.\<close>

definition recordFailureReason :: "constants \<Rightarrow> jobResponse \<Rightarrow> world \<Rightarrow> world" where
  "recordFailureReason c response w =
     (case reason response of
        None \<Rightarrow> w
      | Some errorMessage \<Rightarrow>
          setJobFailureMetadata (requestIdMetadata (requestId response))
            (if str_includes errorMessage ''Monthly aggregated Lines of Code limit breached'' then
               w\<lparr>jobFailureErrorNotification := Some (failedToStartJobMonthlyLimitNotification c),
                 jobFailureErrorChatMessage := Some (failedToStartJobMonthlyLimitChatMessage c)\<rparr>
             else if str_includes errorMessage ''Lines of Code limit breached for job'' then
               w\<lparr>jobFailureErrorNotification := Some (failedToStartJobLinesLimitNotification c),
                 jobFailureErrorChatMessage := Some (failedToStartJobLinesLimitChatMessage c)\<rparr>
             else
               w\<lparr>jobFailureErrorChatMessage := Some (failedToCompleteJobGenericChatMessage c @ '' '' @ errorMessage),
                 jobFailureErrorNotification := Some (failedToCompleteJobGenericNotification c @ '' '' @ errorMessage)\<rparr>))"

text \<open>Lines 602 to 643: the status fetched marks the build step, is reported when it
  differs from the status polled before, and becomes the status polled; then the failure
  reason is looked at.\<close>

definition recordStatus :: "constants \<Rightarrow> string \<Rightarrow> jobResponse \<Rightarrow> world \<Rightarrow> world" where
  "recordStatus c jid response w =
     (let st = jobStatus response;
          w1 = (if st \<in> set (validStatesForBuildSucceeded c) then w\<lparr>buildCode := Succeeded\<rparr> else w);
          w2 = (if st \<noteq> polledJobStatus w1 then emit (JobStatusChanged st (polledJobStatus w1)) w1 else w1)
      in recordFailureReason c response (w2\<lparr>polledJobStatus := st\<rparr>))"

text \<open>How one iteration ends without an exception: the loop is left with the status
  fetched, or it goes on with the new value of the timer.\<close>

datatype iteration = Break string | Continue nat

text \<open>Lines 660 to 676: a paused state leaves the loop, a failure state raises, and
  otherwise the loop sleeps, advances its timer and checks the budget.\<close>

definition finishIteration ::
  "constants \<Rightarrow> jobResponse \<Rightarrow> nat \<Rightarrow> world \<Rightarrow> (error + iteration) \<times> world" where
  "finishIteration c response timer w =
     (let st = jobStatus response in
      if st \<in> set (pausedStates c) then
        (Inr (Break st), w\<lparr>polledJobStatus := waitingUserInput c\<rparr>)
      else if st \<in> set (failureStates c) then
        (Inl (JobStoppedError (requestId response)),
         setJobFailureMetadata (requestIdMetadata (requestId response)) w)
      else
        let w1 = sleep (pollingIntervalMs c) w;
            timer' = timer + transformationJobPollingIntervalSeconds c
        in if timer' > transformationJobTimeoutSeconds c
           then (Inl (Error ''Job timed out''), w1)
           else (Inr (Continue timer'), w1))"

text \<open>One pass through the body of the loop of \<^verbatim>\<open>pollTransformationJob\<close>. The
  \<^verbatim>\<open>catch\<close> block of the body logs and rethrows, so it changes nothing.\<close>

definition pollIteration ::
  "constants \<Rightarrow> string \<Rightarrow> string list \<Rightarrow> pollStep \<Rightarrow> nat \<Rightarrow> world \<Rightarrow> (error + iteration) \<times> world" where
  "pollIteration c jid validStates e timer w =
     andThen (throwIfCancelled w) (\<lambda>_ w1.
       case getTransformation e of
         Inl msg \<Rightarrow> (Inl (Error msg), emit (GetCodeTransformation jid None) w1)
       | Inr response \<Rightarrow>
           let st = jobStatus response;
               w2 = recordStatus c jid response (emit (GetCodeTransformation jid (Some st)) w1)
           in
           if st \<in> set validStates then (Inr (Break st), w2)
           else
             andThen
               (if st \<in> set (validStatesForPlanGenerated c) \<and> \<not> waitingForClientSideBuildAuthorization w2
                then processAwaitingClientActionStatus c (hil e) jid (sleep (pollingIntervalMs c) w2)
                else (Inr (), w2))
               (\<lambda>_ w3. finishIteration c response timer w3))"

text \<open>The loop, over the answers of the outside to its successive iterations. It has no
  bound of its own: the result is \<open>None\<close> when the answers given are used up and the loop
  is still running.\<close>

fun pollLoop ::
  "constants \<Rightarrow> string \<Rightarrow> string list \<Rightarrow> pollStep list \<Rightarrow> nat \<Rightarrow> world \<Rightarrow> (error + string) option \<times> world" where
  "pollLoop c jid validStates [] timer w = (None, w)"
| "pollLoop c jid validStates (e # es) timer w =
     (case pollIteration c jid validStates e timer w of
        (Inl err, w') \<Rightarrow> (Some (Inl err), w')
      | (Inr (Break st), w') \<Rightarrow> (Some (Inr st), w')
      | (Inr (Continue timer'), w') \<Rightarrow> pollLoop c jid validStates es timer' w')"

definition pollTransformationJob ::
  "constants \<Rightarrow> string \<Rightarrow> string list \<Rightarrow> pollStep list \<Rightarrow> world \<Rightarrow> (error + string) option \<times> world" where
  "pollTransformationJob c jid validStates es w = pollLoop c jid validStates es 0 w"

section \<open>Packaging the project\<close>


record folderInfo =
  folderPath :: "string list"
  folderInfoName :: string

record zipCodeParams =
  dependenciesFolder :: "folderInfo option"
  humanInTheLoopFlag :: bool
  modulePath :: "string list option"
  zipManifestParam :: zipManifest



















section \<open>Reading a run of the poll loop\<close>

text \<open>No client action is pending when the plan call returns and the progress update
  that \<^verbatim>\<open>findDownloadArtifactStep\<close> finds, if any, does not await a client action.\<close>

definition noClientActionPending :: "hilEnv \<Rightarrow> bool" where
  "noClientActionPending h =
     (case planResponse h of
        Inl msg \<Rightarrow> False
      | Inr (rid, steps) \<Rightarrow>
          (case findDownloadArtifactStep steps of
             None \<Rightarrow> True
           | Some (step, u) \<Rightarrow> updateStatus u \<noteq> ''AWAITING_CLIENT_ACTION''))"

text \<open>A round returns without an exception when the plan call returns and either the
  update found awaits no client action, or it carries client instructions with an id, the
  download and the patch succeed, the user does not decline the build, the build process
  exits, and the upload and the resume call succeed.\<close>

definition roundReturns :: "hilEnv \<Rightarrow> bool" where
  "roundReturns h =
     (case planResponse h of
        Inl msg \<Rightarrow> False
      | Inr (rid, steps) \<Rightarrow>
          (case findDownloadArtifactStep steps of
             None \<Rightarrow> True
           | Some (step, u) \<Rightarrow>
               if updateStatus u = ''AWAITING_CLIENT_ACTION'' then
                 (case firstArtifact u of
                    None \<Rightarrow> False
                  | Some a \<Rightarrow> downloadArtifactType a = Some ''CLIENT_INSTRUCTIONS'' \<and>
                              truthy (downloadArtifactId a)) \<and>
                 (case clientInstructionsResponse h of Inl msg \<Rightarrow> False | Inr ci \<Rightarrow> True) \<and>
                 copyAndPatchFailure h = None \<and> userAnswer h \<noteq> No \<and> status (spawn h) \<noteq> None \<and>
                 uploadPayloadFailure h = None \<and>
                 (case resumeResponse h of Inl msg \<Rightarrow> False | Inr st \<Rightarrow> True)
               else True))"

text \<open>The status an answer carries; an answer keeps the loop running when the status call
  returns a status that is neither valid for the caller, nor paused, nor a failure, and
  the round, should it be entered, returns.\<close>

definition statusOf :: "pollStep \<Rightarrow> string" where
  "statusOf e = (case getTransformation e of Inl msg \<Rightarrow> [] | Inr r \<Rightarrow> jobStatus r)"

definition stillRunning :: "constants \<Rightarrow> string list \<Rightarrow> pollStep \<Rightarrow> bool" where
  "stillRunning c validStates e =
     (case getTransformation e of
        Inl msg \<Rightarrow> False
      | Inr r \<Rightarrow> jobStatus r \<notin> set validStates \<and> jobStatus r \<notin> set (pausedStates c) \<and>
                 jobStatus r \<notin> set (failureStates c) \<and> roundReturns (hil e))"

text \<open>The timeline of a run: its status observations and its sleeps, in order.\<close>

fun isObservationOrSleep :: "event \<Rightarrow> bool" where
  "isObservationOrSleep (GetCodeTransformation j s) = True"
| "isObservationOrSleep (Sleep n) = True"
| "isObservationOrSleep _ = False"

definition timeline :: "world \<Rightarrow> event list" where
  "timeline w = filter isObservationOrSleep (trace w)"

text \<open>The sleeps that follow the observation of a status that keeps the loop running:
  the one at the end of the iteration and, when the client-side build round is entered,
  the one before it and the two it makes before it reads the plan.\<close>

definition sleepsAfter :: "constants \<Rightarrow> world \<Rightarrow> string \<Rightarrow> nat" where
  "sleepsAfter c w st =
     (if st \<in> set (validStatesForPlanGenerated c) \<and> \<not> waitingForClientSideBuildAuthorization w
      then 4 else 1)"

definition iterationTimeline :: "constants \<Rightarrow> string \<Rightarrow> world \<Rightarrow> pollStep \<Rightarrow> event list" where
  "iterationTimeline c jid w e =
     GetCodeTransformation jid (Some (statusOf e)) #
     replicate (sleepsAfter c w (statusOf e)) (Sleep (pollingIntervalMs c))"

text \<open>The statuses observed, the status changes reported (new status, previous status)
  and the number of entries into the client-side build round, read off the trace.\<close>

fun statusObserved :: "event \<Rightarrow> string list" where
  "statusObserved (GetCodeTransformation j (Some s)) = [s]"
| "statusObserved _ = []"

fun statusChange :: "event \<Rightarrow> (string \<times> string) list" where
  "statusChange (JobStatusChanged s p) = [(s, p)]"
| "statusChange _ = []"

fun roundStart :: "event \<Rightarrow> string list" where
  "roundStart (ProcessAwaitingClientActionStatus j) = [j]"
| "roundStart _ = []"

definition observedStatuses :: "world \<Rightarrow> string list" where
  "observedStatuses w = concat (map statusObserved (trace w))"

definition statusChanges :: "world \<Rightarrow> (string \<times> string) list" where
  "statusChanges w = concat (map statusChange (trace w))"

definition roundsStarted :: "world \<Rightarrow> nat" where
  "roundsStarted w = length (concat (map roundStart (trace w)))"

text \<open>The changes in a sequence of statuses that starts after the status \<open>p\<close>: one for
  each status that differs from the one before it.\<close>

fun expectedChanges :: "string \<Rightarrow> string list \<Rightarrow> (string \<times> string) list" where
  "expectedChanges p [] = []"
| "expectedChanges p (s # ss) = (if s \<noteq> p then [(s, p)] else []) @ expectedChanges s ss"

text \<open>The status one iteration observes, if it gets that far.\<close>

definition iterationObserved :: "pollStep \<Rightarrow> world \<Rightarrow> string list" where
  "iterationObserved e w =
     (if cancelledAtRead w (flagReads w) then []
      else case getTransformation e of Inl msg \<Rightarrow> [] | Inr r \<Rightarrow> [jobStatus r])"

text \<open>An iteration enters the client-side build round when it gets a status that is
  plan-generated and not valid for the caller, while no build authorization is pending.\<close>

definition entersRound :: "constants \<Rightarrow> string list \<Rightarrow> pollStep \<Rightarrow> world \<Rightarrow> bool" where
  "entersRound c validStates e w =
     (if cancelledAtRead w (flagReads w) then False
      else case getTransformation e of
             Inl msg \<Rightarrow> False
           | Inr r \<Rightarrow> jobStatus r \<notin> set validStates \<and> jobStatus r \<in> set (validStatesForPlanGenerated c) \<and>
                      \<not> waitingForClientSideBuildAuthorization w)"

text \<open>The client-side build round leaves alone what the loop itself records: \<open>frame w w'\<close>
  says that \<open>w'\<close> has the cancellation input, the polled status, the failure messages and
  the loop's own events (status calls, status changes, entries into the round) of \<open>w\<close>.\<close>

fun keyEvent :: "event \<Rightarrow> bool" where
  "keyEvent (GetCodeTransformation j s) = True"
| "keyEvent (JobStatusChanged s p) = True"
| "keyEvent (ProcessAwaitingClientActionStatus j) = True"
| "keyEvent _ = False"

definition frame :: "world \<Rightarrow> world \<Rightarrow> bool" where
  "frame w w' =
     (cancelledAtRead w' = cancelledAtRead w \<and> polledJobStatus w' = polledJobStatus w \<and>
      jobFailureErrorNotification w' = jobFailureErrorNotification w \<and>
      jobFailureErrorChatMessage w' = jobFailureErrorChatMessage w \<and>
      filter keyEvent (trace w') = filter keyEvent (trace w))"

section \<open>Example inputs\<close>

text \<open>An instance of the constants, a session in which nothing has happened and nobody
  cancels, a round in which the plan shows no pending client action, and an answer of the
  status call with a given status and failure reason.\<close>

definition exampleConstants :: constants where
  "exampleConstants =
     \<lparr>validStatesForBuildSucceeded = [''PREPARED'', ''PLANNING'', ''PLANNED'', ''TRANSFORMING'', ''TRANSFORMED''],
      validStatesForPlanGenerated = [''PLANNED'', ''TRANSFORMING'', ''TRANSFORMED''],
      pausedStates = [''PAUSED''],
      failureStates = [''FAILED'', ''STOPPING'', ''STOPPED'', ''REJECTED''],
      waitingUserInput = ''WaitingUserInput'',
      transformationJobPollingIntervalSeconds = 5,
      transformationJobTimeoutSeconds = 3600,
      uploadZipSizeLimitInBytes = 2000000000,
      failedToStartJobMonthlyLimitNotification = ''Monthly limit reached'',
      failedToStartJobMonthlyLimitChatMessage = ''You have reached the monthly limit'',
      failedToStartJobLinesLimitNotification = ''Project too large'',
      failedToStartJobLinesLimitChatMessage = ''Your project exceeds the lines of code limit'',
      failedToCompleteJobGenericChatMessage = ''I could not complete the transformation.'',
      failedToCompleteJobGenericNotification = ''The transformation failed.'',
      projectSizeTooLargeNotification = ''Project size too large'',
      projectSizeTooLargeChatMessage = ''Your project is too large to upload'',
      noPomXmlOrBuildGradleFoundNotification = ''No build file found'',
      JDK8VersionNumber = ''52'',
      JDK11VersionNumber = ''55''\<rparr>"

definition idleWorld :: world where
  "idleWorld =
     \<lparr>cancelledAtRead = (\<lambda>n. False),
      flagReads = 0,
      polledJobStatus = [],
      jobFailureErrorNotification = None,
      jobFailureErrorChatMessage = None,
      jobFailureMetadata = [],
      waitingForClientSideBuildAuthorization = False,
      clientSideBuildSelection = ''Verify Each Iteration'',
      jobId = ''job-1'',
      projectCopyFilePath = ''/tmp/originalCopy'',
      buildSystem = Maven,
      buildSystemCommand = ''mvn'',
      buildCode = NotStarted,
      trace = []\<rparr>"

definition quietRound :: hilEnv where
  "quietRound =
     \<lparr>planResponse = Inr (Some ''request-2'', []),
      clientInstructionsResponse = Inl ''no artifact'',
      copyAndPatchFailure = None,
      userAnswer = Yes,
      spawn = \<lparr>status = Some 0, stdout = ''BUILD SUCCESS'', stderr = [], spawnError = None\<rparr>,
      uploadPayloadFailure = None,
      resumeResponse = Inr (Some ''TRANSFORMING''),
      stopResponse = (\<lambda>jid. Inr (Some (Some ''request-3'')))\<rparr>"

text \<open>A round in which the plan awaits a client action and everything succeeds.\<close>

definition buildRound :: hilEnv where
  "buildRound =
     quietRound
       \<lparr>planResponse :=
          Inr (Some ''request-2'',
               [\<lparr>stepName = ''Step 1'',
                 progressUpdates = Some
                   [\<lparr>updateName = ''build'', updateStatus = ''AWAITING_CLIENT_ACTION'',
                     downloadArtifacts = Some
                       [\<lparr>downloadArtifactType = Some ''CLIENT_INSTRUCTIONS'',
                         downloadArtifactId = Some ''artifact-1''\<rparr>]\<rparr>]\<rparr>]),
        clientInstructionsResponse :=
          Inr \<lparr>capability = ''CLIENT_SIDE_BUILD'', buildCommand = ''mvn test'',
               patchFilePath = ''/tmp/client_instructions/diff.patch''\<rparr>\<rparr>"

definition answer :: "string \<Rightarrow> string option \<Rightarrow> pollStep" where
  "answer st why =
     \<lparr>getTransformation = Inr \<lparr>jobStatus = st, reason = why, requestId = Some ''request-1''\<rparr>,
      hil = quietRound\<rparr>"



named_theorems frame_intros

section \<open>Properties\<close>

text \<open>C10. A call of \<^verbatim>\<open>stopJob\<close> with the empty job id returns at once: it succeeds, the
  state is unchanged (no field is written and no event happens, so the backend is not
  called). For any job id, the events of the call are the one backend stop call for that
  id when it is not empty, and nothing when it is empty.\<close>

theorem stopJob_empty_job_id:
  "stopJob backend [] w = (Inr (), w) \<and>
   trace (snd (stopJob backend jid w)) =
     trace w @ (if jid = [] then [] else [StopCodeTransformation jid])"
  by (simp add: stopJob_def emit_def setJobFailureMetadata_def Let_def
      split: sum.splits option.splits)

text \<open>C9, a counterexample to the claim as it is stated. With an empty list of workspace folders
  \<^verbatim>\<open>getOpenProjects\<close> raises nothing: it returns the empty list of projects.\<close>

theorem getOpenProjects_empty_list_counterexample:
  "getOpenProjects (Some []) = Inr [] \<and> getOpenProjects (Some []) \<noteq> Inl NoOpenProjectsError"
  by (simp add: getOpenProjects_def)

text \<open>C9, as the code has it. \<^verbatim>\<open>getOpenProjects\<close> fails with \<^verbatim>\<open>NoOpenProjectsError\<close> exactly when
  the list of workspace folders is undefined; for a list of folders, the empty one too, it
  returns one project per folder, with the folder's name and path.\<close>

theorem getOpenProjects_fails_iff_undefined:
  "(getOpenProjects folders = Inl NoOpenProjectsError) = (folders = None) \<and>
   getOpenProjects (Some fs) =
     Inr (map (\<lambda>folder. \<lparr>name = folderName folder, path = fsPath folder, JDKVersion = None\<rparr>) fs)"
  by (simp add: getOpenProjects_def split: option.splits)

text \<open>C8. When no open project holds a file whose name ends in \<^verbatim>\<open>.java\<close>,
  \<^verbatim>\<open>validateOpenProjects\<close> fails with \<^verbatim>\<open>NoJavaProjectsFoundError\<close>, whatever the build
  systems of the folders are; the build descriptors are not even looked at (no
  \<^verbatim>\<open>checkBuildSystem\<close> call happens), only the search for Java files.\<close>

theorem validateOpenProjects_no_java_files:
  assumes "\<forall>project \<in> set projects. \<forall>f \<in> set (fs (path project)). f = [] \<or> \<not> endsWith (last f) ''.java''"
  shows "validateOpenProjects c fs checkBuildSystem javap projects onProjectFirstOpen =
           (Inl NoJavaProjectsFoundError, map (\<lambda>project. FindFiles (path project) ''**/*.java'') projects)"
proof -
  have "filter (matchesPattern ''.java'') (fs (path project)) = []" if "project \<in> set projects" for project
    using assms that by (auto simp: filter_empty_conv matchesPattern_def)
  then have "filter (\<lambda>project. length (findFiles fs (path project) ''.java'' 1) > 0) projects = []"
    by (simp add: filter_empty_conv findFiles_def)
  then show ?thesis
    by (simp add: validateOpenProjects_def getJavaProjects_def)
qed

theorem validateOpenProjects_no_java_files_witness:
  "validateOpenProjects exampleConstants (\<lambda>base. [[''pom.xml''], [''src'', ''Main.kt'']]) (\<lambda>base. [Maven])
     (\<lambda>f. \<lparr>status = Some 0, stdout = [], stderr = [], spawnError = None\<rparr>)
     [\<lparr>name = ''app'', path = ''/ws/app'', JDKVersion = None\<rparr>] True =
   (Inl NoJavaProjectsFoundError, [FindFiles ''/ws/app'' ''**/*.java''])"
  using validateOpenProjects_no_java_files[of "[\<lparr>name = ''app'', path = ''/ws/app'', JDKVersion = None\<rparr>]"
      "\<lambda>base. [[''pom.xml''], [''src'', ''Main.kt'']]" exampleConstants "\<lambda>base. [Maven]"
      "\<lambda>f. \<lparr>status = Some 0, stdout = [], stderr = [], spawnError = None\<rparr>" True]
  by (simp add: endsWith_def)

subsection \<open>Packaging\<close>






subsection \<open>The client-side build round keeps the loop's record\<close>

lemma frame_refl [frame_intros]: "frame w w"
  by (simp add: frame_def)

lemma frame_andThen [frame_intros]:
  assumes "frame w (snd r)" and "\<And>x w1. frame w w1 \<Longrightarrow> frame w (snd (f x w1))"
  shows "frame w (snd (andThen r f))"
  using assms by (cases r) (auto simp: andThen_def split: sum.splits)

lemma frame_catch [frame_intros]:
  assumes "frame w (snd r)" and "\<And>e w1. frame w w1 \<Longrightarrow> frame w (snd (h e w1))"
  shows "frame w (snd (catch r h))"
  using assms by (cases r) (auto simp: catch_def split: sum.splits)

lemma frame_emit [frame_intros]: "\<not> keyEvent ev \<Longrightarrow> frame w0 w \<Longrightarrow> frame w0 (emit ev w)"
  by (simp add: frame_def emit_def)

lemma frame_sleep [frame_intros]: "frame w0 w \<Longrightarrow> frame w0 (sleep n w)"
  by (simp add: frame_def sleep_def emit_def)

lemma frame_setJobFailureMetadata [frame_intros]: "frame w0 w \<Longrightarrow> frame w0 (setJobFailureMetadata m w)"
  by (simp add: frame_def setJobFailureMetadata_def)

lemma frame_waiting [frame_intros]:
  "frame w0 w \<Longrightarrow> frame w0 (w\<lparr>waitingForClientSideBuildAuthorization := b\<rparr>)"
  by (simp add: frame_def)

lemma frame_throwIfCancelled [frame_intros]: "frame w0 w \<Longrightarrow> frame w0 (snd (throwIfCancelled w))"
  by (simp add: frame_def throwIfCancelled_def emit_def Let_def)

lemma frame_stopJob [frame_intros]: "frame w0 w \<Longrightarrow> frame w0 (snd (stopJob b j w))"
  unfolding stopJob_def Let_def
  by (auto split: sum.splits option.splits intro!: frame_intros)

lemma frame_getTransformationSteps [frame_intros]:
  "frame w0 w \<Longrightarrow> frame w0 (snd (getTransformationSteps h j b w))"
  unfolding getTransformationSteps_def Let_def
  by (auto split: sum.splits option.splits prod.splits intro!: frame_intros)

lemma frame_getClientInstructionArtifactId [frame_intros]:
  "frame w0 w \<Longrightarrow> frame w0 (snd (getClientInstructionArtifactId c h j w))"
  unfolding getClientInstructionArtifactId_def Let_def
  by (auto split: option.splits prod.splits intro!: frame_intros)

lemma frame_extractClientInstructions [frame_intros]:
  "frame w0 w \<Longrightarrow> frame w0 (snd (extractClientInstructions h j a w))"
  unfolding extractClientInstructions_def Let_def
  by (auto split: sum.splits intro!: frame_intros)

lemma frame_resumeTransformationJob [frame_intros]:
  "frame w0 w \<Longrightarrow> frame w0 (snd (resumeTransformationJob h j a w))"
  unfolding resumeTransformationJob_def Let_def
  by (auto split: sum.splits intro!: frame_intros)

lemma frame_stopTransformByQ [frame_intros]:
  "frame w0 w \<Longrightarrow> frame w0 (snd (stopTransformByQ h j w))"
  unfolding stopTransformByQ_def Let_def split_beta
  by (auto intro!: frame_intros)

lemma frame_spawnClientSideBuild [frame_intros]:
  "frame w0 w \<Longrightarrow> frame w0 (snd (spawnClientSideBuild h m a b args w))"
  unfolding spawnClientSideBuild_def Let_def
  by (auto split: option.splits intro!: frame_intros)

lemma frame_runClientSideBuildCallback [frame_intros]:
  "frame w0 w \<Longrightarrow> frame w0 (snd (runClientSideBuildCallback h m a w))"
  unfolding runClientSideBuildCallback_def Let_def
  by (auto split: userChoice.splits intro!: frame_intros)

lemma frame_runClientSideBuild [frame_intros]:
  "frame w0 w \<Longrightarrow> frame w0 (snd (runClientSideBuild h m a w))"
  unfolding runClientSideBuild_def
  by (auto intro!: frame_intros)

lemma frame_processClientInstructions [frame_intros]:
  "frame w0 w \<Longrightarrow> frame w0 (snd (processClientInstructions h j ci a w))"
  unfolding processClientInstructions_def Let_def
  by (auto split: option.splits intro!: frame_intros)

lemma frame_processAwaitingClientActionStatus:
  "frame (emit (ProcessAwaitingClientActionStatus j) w) (snd (processAwaitingClientActionStatus c h j w))"
  unfolding processAwaitingClientActionStatus_def
  by (auto split: option.splits intro!: frame_intros)

lemma concat_map_filter:
  "(\<And>x. \<not> P x \<Longrightarrow> f x = []) \<Longrightarrow> concat (map f (filter P xs)) = concat (map f xs)"
  by (induction xs) auto

lemma statusObserved_key: "\<not> keyEvent ev \<Longrightarrow> statusObserved ev = []"
  by (cases ev) auto

lemma statusChange_key: "\<not> keyEvent ev \<Longrightarrow> statusChange ev = []"
  by (cases ev) auto

lemma roundStart_key: "\<not> keyEvent ev \<Longrightarrow> roundStart ev = []"
  by (cases ev) auto

lemma frame_projections:
  assumes "frame w w'"
  shows "observedStatuses w' = observedStatuses w" "statusChanges w' = statusChanges w"
    "roundsStarted w' = roundsStarted w"
proof -
  have k: "filter keyEvent (trace w') = filter keyEvent (trace w)"
    using assms by (simp add: frame_def)
  show "observedStatuses w' = observedStatuses w"
    unfolding observedStatuses_def
    using concat_map_filter[of keyEvent statusObserved, OF statusObserved_key] k by metis
  show "statusChanges w' = statusChanges w"
    unfolding statusChanges_def
    using concat_map_filter[of keyEvent statusChange, OF statusChange_key] k by metis
  show "roundsStarted w' = roundsStarted w"
    unfolding roundsStarted_def
    using concat_map_filter[of keyEvent roundStart, OF roundStart_key] k by metis
qed

lemma emit_simps [simp]:
  "cancelledAtRead (emit ev w) = cancelledAtRead w"
  "flagReads (emit ev w) = flagReads w"
  "polledJobStatus (emit ev w) = polledJobStatus w"
  "waitingForClientSideBuildAuthorization (emit ev w) = waitingForClientSideBuildAuthorization w"
  "jobFailureErrorNotification (emit ev w) = jobFailureErrorNotification w"
  "jobFailureErrorChatMessage (emit ev w) = jobFailureErrorChatMessage w"
  "trace (emit ev w) = trace w @ [ev]"
  by (simp_all add: emit_def)

lemma projections_emit [simp]:
  "observedStatuses (emit ev w) = observedStatuses w @ statusObserved ev"
  "statusChanges (emit ev w) = statusChanges w @ statusChange ev"
  "roundsStarted (emit ev w) = roundsStarted w + length (roundStart ev)"
  by (simp_all add: observedStatuses_def statusChanges_def roundsStarted_def)

lemma round_projections:
  "observedStatuses (snd (processAwaitingClientActionStatus c h j w)) = observedStatuses w"
  "statusChanges (snd (processAwaitingClientActionStatus c h j w)) = statusChanges w"
  "roundsStarted (snd (processAwaitingClientActionStatus c h j w)) = roundsStarted w + 1"
  "polledJobStatus (snd (processAwaitingClientActionStatus c h j w)) = polledJobStatus w"
  "jobFailureErrorChatMessage (snd (processAwaitingClientActionStatus c h j w)) = jobFailureErrorChatMessage w"
  "jobFailureErrorNotification (snd (processAwaitingClientActionStatus c h j w)) = jobFailureErrorNotification w"
  "cancelledAtRead (snd (processAwaitingClientActionStatus c h j w)) = cancelledAtRead w"
proof -
  note f = frame_processAwaitingClientActionStatus[where j = j and w = w and c = c and h = h]
  show "observedStatuses (snd (processAwaitingClientActionStatus c h j w)) = observedStatuses w"
    using frame_projections(1)[OF f] by simp
  show "statusChanges (snd (processAwaitingClientActionStatus c h j w)) = statusChanges w"
    using frame_projections(2)[OF f] by simp
  show "roundsStarted (snd (processAwaitingClientActionStatus c h j w)) = roundsStarted w + 1"
    using frame_projections(3)[OF f] by simp
  show "polledJobStatus (snd (processAwaitingClientActionStatus c h j w)) = polledJobStatus w"
    "jobFailureErrorChatMessage (snd (processAwaitingClientActionStatus c h j w)) = jobFailureErrorChatMessage w"
    "jobFailureErrorNotification (snd (processAwaitingClientActionStatus c h j w)) = jobFailureErrorNotification w"
    "cancelledAtRead (snd (processAwaitingClientActionStatus c h j w)) = cancelledAtRead w"
    using f by (simp_all add: frame_def)
qed

subsection \<open>When the round returns\<close>

lemma andThen_Inr: "fst r = Inr x \<Longrightarrow> andThen r f = f x (snd r)"
  by (cases r) (simp add: andThen_def)

lemma andThen_alt:
  "andThen r f = (case fst r of Inl e \<Rightarrow> (Inl e, snd r) | Inr x \<Rightarrow> f x (snd r))"
  by (cases r) (simp add: andThen_def split: sum.splits)

lemma catch_Inr: "fst r = Inr x \<Longrightarrow> fst (catch r h) = Inr x"
  by (cases r) (simp add: catch_def)

lemma noClientActionPending_roundReturns: "noClientActionPending h \<Longrightarrow> roundReturns h"
  by (auto simp: noClientActionPending_def roundReturns_def split: sum.splits option.splits prod.splits)

lemma spawnClientSideBuild_returns:
  assumes "status (spawn h) \<noteq> None" and "uploadPayloadFailure h = None"
    and "case resumeResponse h of Inl msg \<Rightarrow> False | Inr st \<Rightarrow> True"
  shows "fst (spawnClientSideBuild h m a b args w) = Inr ()"
  using assms
  by (auto simp: spawnClientSideBuild_def resumeTransformationJob_def andThen_def Let_def
      split: option.splits sum.splits)

lemma runClientSideBuildCallback_returns:
  assumes "userAnswer h \<noteq> No" and "status (spawn h) \<noteq> None" and "uploadPayloadFailure h = None"
    and "case resumeResponse h of Inl msg \<Rightarrow> False | Inr st \<Rightarrow> True"
  shows "fst (runClientSideBuildCallback h m a w) = Inr ()"
  using assms(1) spawnClientSideBuild_returns[OF assms(2-4)]
  by (simp add: runClientSideBuildCallback_def Let_def split: userChoice.splits)

lemma processClientInstructions_returns:
  assumes "copyAndPatchFailure h = None" and "userAnswer h \<noteq> No" and "status (spawn h) \<noteq> None"
    and "uploadPayloadFailure h = None"
    and "case resumeResponse h of Inl msg \<Rightarrow> False | Inr st \<Rightarrow> True"
  shows "fst (processClientInstructions h j ci a w) = Inr ()"
  using assms(1) runClientSideBuildCallback_returns[OF assms(2-5)]
  by (simp add: processClientInstructions_def runClientSideBuild_def Let_def catch_Inr)

lemma round_returns:
  assumes "roundReturns h" and "\<not> cancelledAtRead w (flagReads w)"
  shows "fst (processAwaitingClientActionStatus c h j w) = Inr ()"
proof -
  from assms(1) obtain rid steps where plan: "planResponse h = Inr (rid, steps)"
    by (auto simp: roundReturns_def split: sum.splits)
  define w1 where "w1 = sleep (pollingIntervalMs c)
     (emit (CheckCancelled False) (emit (ProcessAwaitingClientActionStatus j) w\<lparr>flagReads := Suc (flagReads w)\<rparr>))"
  have start: "processAwaitingClientActionStatus c h j w =
     andThen (getClientInstructionArtifactId c h j w1) (\<lambda>transformationStatus w2.
       case transformationStatus of
         None \<Rightarrow> (Inr (), w2)
       | Some None \<Rightarrow> (Inl (Error ''Failed to get client instruction artifact ID''), w2)
       | Some (Some clientInstructionArtifactId) \<Rightarrow>
           if clientInstructionArtifactId = [] then
             (Inl (Error ''Failed to get client instruction artifact ID''), w2)
           else
             andThen (extractClientInstructions h j clientInstructionArtifactId (sleep (pollingIntervalMs c) w2))
               (\<lambda>ci w3.
                  catch (processClientInstructions h j ci clientInstructionArtifactId
                           (sleep (pollingIntervalMs c) w3))
                    (\<lambda>err w4. (Inl (ErrorAbout ''process client instructions failed: '' err), w4))))"
    using assms(2)
    by (simp add: processAwaitingClientActionStatus_def throwIfCancelled_def andThen_def Let_def w1_def)
  show ?thesis
  proof (cases "\<exists>step u. findDownloadArtifactStep steps = Some (step, u) \<and> updateStatus u = ''AWAITING_CLIENT_ACTION''")
    case False
    then have "fst (getClientInstructionArtifactId c h j w1) = Inr None"
      by (auto simp: getClientInstructionArtifactId_def getTransformationSteps_def andThen_def plan Let_def
          split: option.splits)
    then show ?thesis
      by (simp add: start andThen_Inr)
  next
    case True
    then obtain step u where u: "findDownloadArtifactStep steps = Some (step, u)"
      "updateStatus u = ''AWAITING_CLIENT_ACTION''" by blast
    from assms(1) plan u obtain a where a: "firstArtifact u = Some a"
      "downloadArtifactType a = Some ''CLIENT_INSTRUCTIONS''" "truthy (downloadArtifactId a)"
      and rest: "case clientInstructionsResponse h of Inl msg \<Rightarrow> False | Inr ci \<Rightarrow> True"
      "copyAndPatchFailure h = None" "userAnswer h \<noteq> No" "status (spawn h) \<noteq> None"
      "uploadPayloadFailure h = None" "case resumeResponse h of Inl msg \<Rightarrow> False | Inr st \<Rightarrow> True"
      by (auto simp: roundReturns_def split: option.splits)
    from a(3) obtain aid where aid: "downloadArtifactId a = Some aid" "aid \<noteq> []"
      by (auto simp: truthy_def split: option.splits)
    from rest(1) obtain ci where ci: "clientInstructionsResponse h = Inr ci"
      by (auto split: sum.splits)
    have g: "fst (getClientInstructionArtifactId c h j w1) = Inr (Some (Some aid))"
      by (simp add: getClientInstructionArtifactId_def getTransformationSteps_def andThen_def plan Let_def u a aid)
    have x: "fst (extractClientInstructions h j aid w') = Inr ci" for w'
      by (simp add: extractClientInstructions_def ci Let_def)
    note p = processClientInstructions_returns[OF rest(2-6)]
    show ?thesis
      by (simp add: start andThen_Inr[OF g] aid andThen_Inr[OF x] catch_Inr[OF p])
  qed
qed

lemma quiet_round:
  assumes "noClientActionPending h" and "\<not> cancelledAtRead w (flagReads w)"
  shows "trace (snd (processAwaitingClientActionStatus c h j w)) =
           trace w @ [ProcessAwaitingClientActionStatus j, CheckCancelled False,
                      Sleep (pollingIntervalMs c), Sleep (pollingIntervalMs c), GetCodeTransformationPlan j]"
    and "waitingForClientSideBuildAuthorization (snd (processAwaitingClientActionStatus c h j w)) =
           waitingForClientSideBuildAuthorization w"
  using assms
  by (auto simp: noClientActionPending_def processAwaitingClientActionStatus_def throwIfCancelled_def
      getClientInstructionArtifactId_def getTransformationSteps_def andThen_def emit_def sleep_def
      setJobFailureMetadata_def Let_def split: sum.splits option.splits prod.splits)

subsection \<open>One iteration\<close>

lemma recordFailureReason_simps [simp]:
  "trace (recordFailureReason c r w) = trace w"
  "cancelledAtRead (recordFailureReason c r w) = cancelledAtRead w"
  "flagReads (recordFailureReason c r w) = flagReads w"
  "polledJobStatus (recordFailureReason c r w) = polledJobStatus w"
  "waitingForClientSideBuildAuthorization (recordFailureReason c r w) = waitingForClientSideBuildAuthorization w"
  by (simp_all add: recordFailureReason_def setJobFailureMetadata_def split: option.splits)

lemma recordStatus_simps [simp]:
  "cancelledAtRead (recordStatus c jid r w) = cancelledAtRead w"
  "flagReads (recordStatus c jid r w) = flagReads w"
  "polledJobStatus (recordStatus c jid r w) = jobStatus r"
  "waitingForClientSideBuildAuthorization (recordStatus c jid r w) = waitingForClientSideBuildAuthorization w"
  "trace (recordStatus c jid r w) =
     trace w @ (if jobStatus r \<noteq> polledJobStatus w then [JobStatusChanged (jobStatus r) (polledJobStatus w)] else [])"
  by (simp_all add: recordStatus_def Let_def)

lemma sleep_simps [simp]:
  "cancelledAtRead (sleep n w) = cancelledAtRead w"
  "flagReads (sleep n w) = flagReads w"
  "polledJobStatus (sleep n w) = polledJobStatus w"
  "waitingForClientSideBuildAuthorization (sleep n w) = waitingForClientSideBuildAuthorization w"
  "jobFailureErrorChatMessage (sleep n w) = jobFailureErrorChatMessage w"
  "jobFailureErrorNotification (sleep n w) = jobFailureErrorNotification w"
  "trace (sleep n w) = trace w @ [Sleep n]"
  by (simp_all add: sleep_def)

lemma projections_simps [simp]:
  "observedStatuses (sleep n w) = observedStatuses w"
  "statusChanges (sleep n w) = statusChanges w"
  "roundsStarted (sleep n w) = roundsStarted w"
  "observedStatuses (w\<lparr>flagReads := k\<rparr>) = observedStatuses w"
  "statusChanges (w\<lparr>flagReads := k\<rparr>) = statusChanges w"
  "roundsStarted (w\<lparr>flagReads := k\<rparr>) = roundsStarted w"
  "observedStatuses (recordStatus c jid r w) = observedStatuses w"
  "statusChanges (recordStatus c jid r w) = statusChanges w @ expectedChanges (polledJobStatus w) [jobStatus r]"
  "roundsStarted (recordStatus c jid r w) = roundsStarted w"
  by (simp_all add: observedStatuses_def statusChanges_def roundsStarted_def)

lemma timeline_simps [simp]:
  "timeline (emit ev w) = timeline w @ (if isObservationOrSleep ev then [ev] else [])"
  "timeline (sleep n w) = timeline w @ [Sleep n]"
  "timeline (w\<lparr>flagReads := k\<rparr>) = timeline w"
  "timeline (recordStatus c jid r w) = timeline w"
  by (simp_all add: timeline_def)

lemma finishIteration_simps [simp]:
  "observedStatuses (snd (finishIteration c r t w)) = observedStatuses w"
  "statusChanges (snd (finishIteration c r t w)) = statusChanges w"
  "roundsStarted (snd (finishIteration c r t w)) = roundsStarted w"
  "jobFailureErrorChatMessage (snd (finishIteration c r t w)) = jobFailureErrorChatMessage w"
  "jobFailureErrorNotification (snd (finishIteration c r t w)) = jobFailureErrorNotification w"
  "cancelledAtRead (snd (finishIteration c r t w)) = cancelledAtRead w"
  "waitingForClientSideBuildAuthorization (snd (finishIteration c r t w)) = waitingForClientSideBuildAuthorization w"
  by (simp_all add: finishIteration_def Let_def observedStatuses_def statusChanges_def roundsStarted_def
      setJobFailureMetadata_def)

lemma finishIteration_Continue:
  "fst (finishIteration c r t w) = Inr (Continue t') \<Longrightarrow>
   polledJobStatus (snd (finishIteration c r t w)) = polledJobStatus w"
  by (simp add: finishIteration_def Let_def split: if_splits)

lemma finishIteration_goes_on:
  assumes "jobStatus r \<notin> set (pausedStates c)" and "jobStatus r \<notin> set (failureStates c)"
  shows "fst (finishIteration c r t w) =
           (if t + transformationJobPollingIntervalSeconds c > transformationJobTimeoutSeconds c
            then Inl (Error ''Job timed out'')
            else Inr (Continue (t + transformationJobPollingIntervalSeconds c)))"
    and "timeline (snd (finishIteration c r t w)) = timeline w @ [Sleep (pollingIntervalMs c)]"
  using assms by (simp_all add: finishIteration_def Let_def)

lemma pollIteration_break:
  assumes "\<not> cancelledAtRead w (flagReads w)" and "getTransformation e = Inr r"
    and "jobStatus r \<in> set validStates"
  shows "fst (pollIteration c jid validStates e t w) = Inr (Break (jobStatus r))"
    and "timeline (snd (pollIteration c jid validStates e t w)) =
           timeline w @ [GetCodeTransformation jid (Some (jobStatus r))]"
  using assms
  by (simp_all add: pollIteration_def throwIfCancelled_def andThen_def Let_def)

text \<open>An iteration that gets a status outside the caller's valid states, up to the call of
  \<open>finishIteration\<close>.\<close>

lemma pollIteration_unfold:
  assumes "\<not> cancelledAtRead w (flagReads w)" and "getTransformation e = Inr r"
    and "jobStatus r \<notin> set validStates"
  shows "pollIteration c jid validStates e t w =
     andThen
       (if jobStatus r \<in> set (validStatesForPlanGenerated c) \<and> \<not> waitingForClientSideBuildAuthorization w
        then processAwaitingClientActionStatus c (hil e) jid
               (sleep (pollingIntervalMs c)
                  (recordStatus c jid r (emit (GetCodeTransformation jid (Some (jobStatus r)))
                     (emit (CheckCancelled False) (w\<lparr>flagReads := Suc (flagReads w)\<rparr>)))))
        else (Inr (),
              recordStatus c jid r (emit (GetCodeTransformation jid (Some (jobStatus r)))
                (emit (CheckCancelled False) (w\<lparr>flagReads := Suc (flagReads w)\<rparr>)))))
       (\<lambda>_ w3. finishIteration c r t w3)"
  using assms
  by (simp add: pollIteration_def throwIfCancelled_def andThen_def Let_def)

lemma pollIteration_goes_on:
  assumes "\<forall>n. \<not> cancelledAtRead w n" and "getTransformation e = Inr r"
    and "jobStatus r \<notin> set validStates" and "jobStatus r \<notin> set (pausedStates c)"
    and "jobStatus r \<notin> set (failureStates c)" and "roundReturns (hil e)"
  shows "fst (pollIteration c jid validStates e t w) =
           (if t + transformationJobPollingIntervalSeconds c > transformationJobTimeoutSeconds c
            then Inl (Error ''Job timed out'')
            else Inr (Continue (t + transformationJobPollingIntervalSeconds c)))"
    and "cancelledAtRead (snd (pollIteration c jid validStates e t w)) = cancelledAtRead w"
    and "observedStatuses (snd (pollIteration c jid validStates e t w)) =
           observedStatuses w @ [jobStatus r]"
proof -
  define w2 where "w2 = recordStatus c jid r (emit (GetCodeTransformation jid (Some (jobStatus r)))
     (emit (CheckCancelled False) (w\<lparr>flagReads := Suc (flagReads w)\<rparr>)))"
  define r3 where "r3 = (if jobStatus r \<in> set (validStatesForPlanGenerated c) \<and>
        \<not> waitingForClientSideBuildAuthorization w
     then processAwaitingClientActionStatus c (hil e) jid (sleep (pollingIntervalMs c) w2) else (Inr (), w2))"
  have w2: "cancelledAtRead w2 = cancelledAtRead w" "observedStatuses w2 = observedStatuses w @ [jobStatus r]"
    by (simp_all add: w2_def)
  have nc: "\<not> cancelledAtRead (sleep (pollingIntervalMs c) w2) (flagReads (sleep (pollingIntervalMs c) w2))"
    using assms(1) w2(1) by simp
  have r3: "fst r3 = Inr ()" "cancelledAtRead (snd r3) = cancelledAtRead w"
    "observedStatuses (snd r3) = observedStatuses w @ [jobStatus r]"
    using round_returns[OF assms(6) nc, of c jid] w2
    by (simp_all add: r3_def round_projections)
  have "pollIteration c jid validStates e t w = andThen r3 (\<lambda>_ w3. finishIteration c r t w3)"
    using pollIteration_unfold[of w e r validStates c jid t] assms(1-3)
    by (simp add: r3_def w2_def)
  then have unfold: "pollIteration c jid validStates e t w = finishIteration c r t (snd r3)"
    using r3(1) by (simp add: andThen_Inr)
  show "fst (pollIteration c jid validStates e t w) =
           (if t + transformationJobPollingIntervalSeconds c > transformationJobTimeoutSeconds c
            then Inl (Error ''Job timed out'')
            else Inr (Continue (t + transformationJobPollingIntervalSeconds c)))"
    using finishIteration_goes_on(1)[OF assms(4,5)] by (simp add: unfold)
  show "cancelledAtRead (snd (pollIteration c jid validStates e t w)) = cancelledAtRead w"
    by (simp add: unfold r3)
  show "observedStatuses (snd (pollIteration c jid validStates e t w)) = observedStatuses w @ [jobStatus r]"
    by (simp add: unfold r3)
qed

lemma pollIteration_quiet:
  assumes "\<forall>n. \<not> cancelledAtRead w n" and "getTransformation e = Inr r"
    and "jobStatus r \<notin> set validStates" and "jobStatus r \<notin> set (pausedStates c)"
    and "jobStatus r \<notin> set (failureStates c)" and "noClientActionPending (hil e)"
  shows "timeline (snd (pollIteration c jid validStates e t w)) =
           timeline w @ GetCodeTransformation jid (Some (jobStatus r)) #
             replicate (sleepsAfter c w (jobStatus r)) (Sleep (pollingIntervalMs c))"
    and "waitingForClientSideBuildAuthorization (snd (pollIteration c jid validStates e t w)) =
           waitingForClientSideBuildAuthorization w"
proof -
  define w2 where "w2 = recordStatus c jid r (emit (GetCodeTransformation jid (Some (jobStatus r)))
     (emit (CheckCancelled False) (w\<lparr>flagReads := Suc (flagReads w)\<rparr>)))"
  define r3 where "r3 = (if jobStatus r \<in> set (validStatesForPlanGenerated c) \<and>
        \<not> waitingForClientSideBuildAuthorization w
     then processAwaitingClientActionStatus c (hil e) jid (sleep (pollingIntervalMs c) w2) else (Inr (), w2))"
  have w2: "cancelledAtRead w2 = cancelledAtRead w"
    "waitingForClientSideBuildAuthorization w2 = waitingForClientSideBuildAuthorization w"
    "timeline w2 = timeline w @ [GetCodeTransformation jid (Some (jobStatus r))]"
    by (simp_all add: w2_def)
  have nc: "\<not> cancelledAtRead (sleep (pollingIntervalMs c) w2) (flagReads (sleep (pollingIntervalMs c) w2))"
    using assms(1) w2(1) by simp
  note q = quiet_round[OF assms(6) nc, of c jid]
  have r3: "fst r3 = Inr ()"
    "waitingForClientSideBuildAuthorization (snd r3) = waitingForClientSideBuildAuthorization w"
    "timeline (snd r3) = timeline w2 @ replicate (sleepsAfter c w (jobStatus r) - 1) (Sleep (pollingIntervalMs c))"
    using q w2 round_returns[OF noClientActionPending_roundReturns[OF assms(6)] nc, of c jid]
    by (auto simp: r3_def sleepsAfter_def timeline_def numeral_eq_Suc)
  have "pollIteration c jid validStates e t w = andThen r3 (\<lambda>_ w3. finishIteration c r t w3)"
    using pollIteration_unfold[of w e r validStates c jid t] assms(1-3)
    by (simp add: r3_def w2_def)
  then have unfold: "pollIteration c jid validStates e t w = finishIteration c r t (snd r3)"
    using r3(1) by (simp add: andThen_Inr)
  show "waitingForClientSideBuildAuthorization (snd (pollIteration c jid validStates e t w)) =
           waitingForClientSideBuildAuthorization w"
    by (simp add: unfold r3)
  have "sleepsAfter c w (jobStatus r) > 0" by (simp add: sleepsAfter_def)
  then have "replicate (sleepsAfter c w (jobStatus r) - 1) (Sleep (pollingIntervalMs c)) @ [Sleep (pollingIntervalMs c)]
      = replicate (sleepsAfter c w (jobStatus r)) (Sleep (pollingIntervalMs c))"
    by (cases "sleepsAfter c w (jobStatus r)") (simp_all add: replicate_append_same)
  then show "timeline (snd (pollIteration c jid validStates e t w)) =
           timeline w @ GetCodeTransformation jid (Some (jobStatus r)) #
             replicate (sleepsAfter c w (jobStatus r)) (Sleep (pollingIntervalMs c))"
    using r3(3) w2(3) finishIteration_goes_on(2)[OF assms(4,5), of t "snd r3"]
    by (simp add: unfold)
qed

lemma pollIteration_record:
  fixes c jid validStates e t w
  defines "w' \<equiv> snd (pollIteration c jid validStates e t w)"
  shows "observedStatuses w' = observedStatuses w @ iterationObserved e w"
    and "statusChanges w' = statusChanges w @ expectedChanges (polledJobStatus w) (iterationObserved e w)"
    and "roundsStarted w' \<le> roundsStarted w + length (iterationObserved e w)"
    and "fst (pollIteration c jid validStates e t w) = Inr (Continue t') \<Longrightarrow>
         polledJobStatus w' = last (polledJobStatus w # iterationObserved e w)"
proof -
  show "observedStatuses w' = observedStatuses w @ iterationObserved e w"
    unfolding w'_def pollIteration_def throwIfCancelled_def andThen_alt iterationObserved_def Let_def
    by (simp add: round_projections split: sum.splits)
  show "statusChanges w' = statusChanges w @ expectedChanges (polledJobStatus w) (iterationObserved e w)"
    unfolding w'_def pollIteration_def throwIfCancelled_def andThen_alt iterationObserved_def Let_def
    by (simp add: round_projections split: sum.splits)
  show "roundsStarted w' \<le> roundsStarted w + length (iterationObserved e w)"
    unfolding w'_def pollIteration_def throwIfCancelled_def andThen_alt iterationObserved_def Let_def
    by (simp add: round_projections split: sum.splits)
  show "fst (pollIteration c jid validStates e t w) = Inr (Continue t') \<Longrightarrow>
         polledJobStatus w' = last (polledJobStatus w # iterationObserved e w)"
    unfolding w'_def pollIteration_def throwIfCancelled_def andThen_alt iterationObserved_def Let_def
    by (auto simp: round_projections dest: finishIteration_Continue split: sum.splits if_splits)
qed

lemma pollIteration_rounds:
  "roundsStarted (snd (pollIteration c jid validStates e t w)) =
     roundsStarted w + (if entersRound c validStates e w then 1 else 0)"
  unfolding pollIteration_def throwIfCancelled_def andThen_alt entersRound_def Let_def
  by (auto simp: round_projections split: sum.splits)

lemma messages_recordStatus:
  "jobFailureErrorChatMessage (recordStatus c jid r w) =
     (case reason r of
        None \<Rightarrow> jobFailureErrorChatMessage w
      | Some m \<Rightarrow>
          Some (if str_includes m ''Monthly aggregated Lines of Code limit breached''
                then failedToStartJobMonthlyLimitChatMessage c
                else if str_includes m ''Lines of Code limit breached for job''
                then failedToStartJobLinesLimitChatMessage c
                else failedToCompleteJobGenericChatMessage c @ '' '' @ m))"
  "jobFailureErrorNotification (recordStatus c jid r w) =
     (case reason r of
        None \<Rightarrow> jobFailureErrorNotification w
      | Some m \<Rightarrow>
          Some (if str_includes m ''Monthly aggregated Lines of Code limit breached''
                then failedToStartJobMonthlyLimitNotification c
                else if str_includes m ''Lines of Code limit breached for job''
                then failedToStartJobLinesLimitNotification c
                else failedToCompleteJobGenericNotification c @ '' '' @ m))"
  by (simp_all add: recordStatus_def recordFailureReason_def setJobFailureMetadata_def emit_def Let_def
      split: option.splits)

subsection \<open>The loop\<close>

lemma iterationTimeline_cong:
  "waitingForClientSideBuildAuthorization w' = waitingForClientSideBuildAuthorization w \<Longrightarrow>
   iterationTimeline c jid w' = iterationTimeline c jid w"
  by (rule ext) (simp add: iterationTimeline_def sleepsAfter_def)

lemma expectedChanges_append:
  "expectedChanges p (a @ b) = expectedChanges p a @ expectedChanges (last (p # a)) b"
  by (induction a arbitrary: p) auto

lemma pollLoop_single:
  "pollLoop c jid validStates [e] t w =
     (case pollIteration c jid validStates e t w of
        (Inl err, w') \<Rightarrow> (Some (Inl err), w')
      | (Inr (Break st), w') \<Rightarrow> (Some (Inr st), w')
      | (Inr (Continue timer'), w') \<Rightarrow> (None, w'))"
  by (simp split: prod.splits sum.splits iteration.splits)

text \<open>Answers that keep the loop running within the budget are passed one by one.\<close>

lemma pollLoop_running_prefix:
  assumes "\<forall>e \<in> set es. stillRunning c validStates e"
    and "\<forall>n. \<not> cancelledAtRead w n"
    and "t + length es * transformationJobPollingIntervalSeconds c \<le> transformationJobTimeoutSeconds c"
  shows "\<exists>w'. pollLoop c jid validStates (es @ rest) t w =
                 pollLoop c jid validStates rest (t + length es * transformationJobPollingIntervalSeconds c) w' \<and>
               cancelledAtRead w' = cancelledAtRead w \<and>
               observedStatuses w' = observedStatuses w @ map statusOf es \<and>
               ((\<forall>e \<in> set es. noClientActionPending (hil e)) \<longrightarrow>
                  waitingForClientSideBuildAuthorization w' = waitingForClientSideBuildAuthorization w \<and>
                  timeline w' = timeline w @ concat (map (iterationTimeline c jid w) es))"
  using assms
proof (induction es arbitrary: t w)
  case Nil
  show ?case by (rule exI[of _ w]) simp
next
  case (Cons e es)
  let ?i = "transformationJobPollingIntervalSeconds c"
  from Cons.prems(1) obtain r where r: "getTransformation e = Inr r"
    "jobStatus r \<notin> set validStates" "jobStatus r \<notin> set (pausedStates c)"
    "jobStatus r \<notin> set (failureStates c)" "roundReturns (hil e)"
    by (auto simp: stillRunning_def split: sum.splits)
  note step = pollIteration_goes_on[OF Cons.prems(2) r, of jid t]
  obtain res w1 where it: "pollIteration c jid validStates e t w = (res, w1)"
    by (cases "pollIteration c jid validStates e t w")
  have le: "t + ?i \<le> transformationJobTimeoutSeconds c"
    using Cons.prems(3) by simp
  have res: "res = Inr (Continue (t + ?i))"
    using step(1) it le by simp
  have w1: "cancelledAtRead w1 = cancelledAtRead w"
    "observedStatuses w1 = observedStatuses w @ [statusOf e]"
    using step(2,3) it r(1) by (simp_all add: statusOf_def)
  have q1: "waitingForClientSideBuildAuthorization w1 = waitingForClientSideBuildAuthorization w \<and>
      timeline w1 = timeline w @ iterationTimeline c jid w e" if "noClientActionPending (hil e)"
    using pollIteration_quiet[OF Cons.prems(2) r(1-4) that, of jid t] it r(1)
    by (simp add: iterationTimeline_def statusOf_def)
  have "\<forall>n. \<not> cancelledAtRead w1 n" using Cons.prems(2) w1(1) by simp
  moreover have "\<forall>e \<in> set es. stillRunning c validStates e" using Cons.prems(1) by simp
  moreover have "(t + ?i) + length es * ?i \<le> transformationJobTimeoutSeconds c"
    using Cons.prems(3) by (simp add: algebra_simps)
  ultimately obtain w' where w': "pollLoop c jid validStates (es @ rest) (t + ?i) w1 =
        pollLoop c jid validStates rest ((t + ?i) + length es * ?i) w'"
      "cancelledAtRead w' = cancelledAtRead w1"
      "observedStatuses w' = observedStatuses w1 @ map statusOf es"
      "(\<forall>e \<in> set es. noClientActionPending (hil e)) \<longrightarrow>
         waitingForClientSideBuildAuthorization w' = waitingForClientSideBuildAuthorization w1 \<and>
         timeline w' = timeline w1 @ concat (map (iterationTimeline c jid w1) es)"
    using Cons.IH[of w1 "t + ?i"] by blast
  have loop: "pollLoop c jid validStates ((e # es) @ rest) t w =
        pollLoop c jid validStates rest (t + length (e # es) * ?i) w'"
    using it res w'(1) by (simp add: algebra_simps)
  have quiet: "waitingForClientSideBuildAuthorization w' = waitingForClientSideBuildAuthorization w \<and>
      timeline w' = timeline w @ concat (map (iterationTimeline c jid w) (e # es))"
    if "\<forall>x \<in> set (e # es). noClientActionPending (hil x)"
  proof -
    from that have qe: "noClientActionPending (hil e)" and qs: "\<forall>x \<in> set es. noClientActionPending (hil x)"
      by simp_all
    from q1[OF qe] w'(4) qs iterationTimeline_cong[of w1 w c jid]
    show ?thesis by simp
  qed
  show ?case
    apply (rule exI[of _ w'])
    using loop w'(2,3) w1 quiet by simp
qed

text \<open>C1. The status call answers \<^verbatim>\<open>SUBMITTED\<close>, \<^verbatim>\<open>PLANNING\<close>, \<^verbatim>\<open>TRANSFORMING\<close>,
  \<^verbatim>\<open>COMPLETED\<close>, the caller's valid states are \<^verbatim>\<open>[COMPLETED]\<close>, nobody cancels, the
  first three answers keep the loop running (the status call returns, the constants count
  the status neither as paused nor as a failure) with no client action pending in the
  plan, and the budget allows three intervals. Then \<^verbatim>\<open>pollTransformationJob\<close> returns
  \<^verbatim>\<open>COMPLETED\<close>; it has made exactly these four status observations, and between two
  successive observations it has slept the polling interval (once, or four times in a
  row when the iteration also looked for a pending client action).\<close>

theorem pollTransformationJob_four_statuses:
  assumes statuses: "statusOf e1 = ''SUBMITTED''" "statusOf e2 = ''PLANNING''" "statusOf e3 = ''TRANSFORMING''"
    and final: "getTransformation e4 = Inr r4" "jobStatus r4 = ''COMPLETED''"
    and running: "stillRunning c [''COMPLETED''] e1" "stillRunning c [''COMPLETED''] e2"
      "stillRunning c [''COMPLETED''] e3"
    and quiet: "noClientActionPending (hil e1)" "noClientActionPending (hil e2)"
      "noClientActionPending (hil e3)"
    and notCancelled: "\<forall>n. \<not> cancelledAtRead w n"
    and budget: "3 * transformationJobPollingIntervalSeconds c \<le> transformationJobTimeoutSeconds c"
  shows "fst (pollTransformationJob c jid [''COMPLETED''] [e1, e2, e3, e4] w) = Some (Inr ''COMPLETED'') \<and>
         timeline (snd (pollTransformationJob c jid [''COMPLETED''] [e1, e2, e3, e4] w)) =
           timeline w @
           GetCodeTransformation jid (Some ''SUBMITTED'') #
             replicate (sleepsAfter c w ''SUBMITTED'') (Sleep (pollingIntervalMs c)) @
           GetCodeTransformation jid (Some ''PLANNING'') #
             replicate (sleepsAfter c w ''PLANNING'') (Sleep (pollingIntervalMs c)) @
           GetCodeTransformation jid (Some ''TRANSFORMING'') #
             replicate (sleepsAfter c w ''TRANSFORMING'') (Sleep (pollingIntervalMs c)) @
           [GetCodeTransformation jid (Some ''COMPLETED'')]"
proof -
  let ?i = "transformationJobPollingIntervalSeconds c"
  have "\<forall>e \<in> set [e1, e2, e3]. stillRunning c [''COMPLETED''] e"
    using running by simp
  moreover have "0 + length [e1, e2, e3] * ?i \<le> transformationJobTimeoutSeconds c"
    using budget by simp
  moreover have "\<forall>e \<in> set [e1, e2, e3]. noClientActionPending (hil e)"
    using quiet by simp
  ultimately obtain w' where w':
    "pollLoop c jid [''COMPLETED''] ([e1, e2, e3] @ [e4]) 0 w =
       pollLoop c jid [''COMPLETED''] [e4] (0 + length [e1, e2, e3] * ?i) w'"
    "cancelledAtRead w' = cancelledAtRead w"
    "timeline w' = timeline w @ concat (map (iterationTimeline c jid w) [e1, e2, e3])"
    using pollLoop_running_prefix[OF _ notCancelled, of "[e1, e2, e3]" c "[''COMPLETED'']" 0 jid "[e4]"]
    by blast
  have nc: "\<not> cancelledAtRead w' (flagReads w')"
    using notCancelled w'(2) by simp
  have v: "jobStatus r4 \<in> set [''COMPLETED'']"
    using final(2) by simp
  note last = pollIteration_break[OF nc final(1) v, of c jid "0 + length [e1, e2, e3] * ?i"]
  obtain res w'' where it: "pollIteration c jid [''COMPLETED''] e4 (0 + length [e1, e2, e3] * ?i) w' = (res, w'')"
    by (cases "pollIteration c jid [''COMPLETED''] e4 (0 + length [e1, e2, e3] * ?i) w'")
  have "res = Inr (Break ''COMPLETED'')" "timeline w'' = timeline w' @ [GetCodeTransformation jid (Some ''COMPLETED'')]"
    using last it final(2) by simp_all
  then have "pollLoop c jid [''COMPLETED''] [e4] (0 + length [e1, e2, e3] * ?i) w' = (Some (Inr ''COMPLETED''), w'')"
    using it by (simp add: pollLoop_single)
  then have "pollTransformationJob c jid [''COMPLETED''] [e1, e2, e3, e4] w = (Some (Inr ''COMPLETED''), w'')"
    using w'(1) by (simp add: pollTransformationJob_def)
  then show ?thesis
    using \<open>timeline w'' = _\<close> w'(3) statuses
    by (simp add: iterationTimeline_def)
qed

theorem pollTransformationJob_four_statuses_witness:
  "fst (pollTransformationJob exampleConstants ''job-1'' [''COMPLETED'']
          [answer ''SUBMITTED'' None, answer ''PLANNING'' None, answer ''TRANSFORMING'' None,
           answer ''COMPLETED'' None] idleWorld) = Some (Inr ''COMPLETED'') \<and>
   timeline (snd (pollTransformationJob exampleConstants ''job-1'' [''COMPLETED'']
          [answer ''SUBMITTED'' None, answer ''PLANNING'' None, answer ''TRANSFORMING'' None,
           answer ''COMPLETED'' None] idleWorld)) =
     [GetCodeTransformation ''job-1'' (Some ''SUBMITTED''), Sleep 5000,
      GetCodeTransformation ''job-1'' (Some ''PLANNING''), Sleep 5000,
      GetCodeTransformation ''job-1'' (Some ''TRANSFORMING''), Sleep 5000, Sleep 5000, Sleep 5000, Sleep 5000,
      GetCodeTransformation ''job-1'' (Some ''COMPLETED'')]"
proof -
  have st: "statusOf (answer s None) = s" for s
    by (simp add: answer_def statusOf_def)
  have q: "noClientActionPending (hil (answer s None))" for s
    by (simp add: answer_def noClientActionPending_def quietRound_def)
  have run: "stillRunning exampleConstants [''COMPLETED''] (answer ''SUBMITTED'' None)"
    "stillRunning exampleConstants [''COMPLETED''] (answer ''PLANNING'' None)"
    "stillRunning exampleConstants [''COMPLETED''] (answer ''TRANSFORMING'' None)"
    by (simp_all add: answer_def stillRunning_def roundReturns_def quietRound_def exampleConstants_def)
  have fin: "getTransformation (answer ''COMPLETED'' None) =
      Inr \<lparr>jobStatus = ''COMPLETED'', reason = None, requestId = Some ''request-1''\<rparr>"
    "jobStatus \<lparr>jobStatus = ''COMPLETED'', reason = None, requestId = Some ''request-1''\<rparr> = ''COMPLETED''"
    by (simp_all add: answer_def)
  have nc: "\<forall>n. \<not> cancelledAtRead idleWorld n"
    by (simp add: idleWorld_def)
  have budget: "3 * transformationJobPollingIntervalSeconds exampleConstants
      \<le> transformationJobTimeoutSeconds exampleConstants"
    by (simp add: exampleConstants_def)
  have sl: "sleepsAfter exampleConstants idleWorld ''SUBMITTED'' = Suc 0"
    "sleepsAfter exampleConstants idleWorld ''PLANNING'' = Suc 0"
    "sleepsAfter exampleConstants idleWorld ''TRANSFORMING'' = Suc (Suc (Suc (Suc 0)))"
    by (simp_all add: sleepsAfter_def exampleConstants_def idleWorld_def)
  have ms: "pollingIntervalMs exampleConstants = 5000"
    by (simp add: pollingIntervalMs_def exampleConstants_def)
  have tl: "timeline idleWorld = []"
    by (simp add: timeline_def idleWorld_def)
  from pollTransformationJob_four_statuses[OF st st st fin run q q q nc budget, of "''job-1''"]
  show ?thesis
    by (simp add: sl ms tl)
qed

text \<open>C3. When every answer keeps the loop running (the status is never valid for the
  caller, never a failure state and never a paused state, the status calls return and
  the client-side build round, where it is entered, returns), nobody cancels and the
  polling interval is not zero, then \<^verbatim>\<open>pollTransformationJob\<close> raises the error
  \<^verbatim>\<open>Job timed out\<close>, provided the outside answers long enough. It does so in the first
  iteration at whose end the polling time added up (one interval for each iteration)
  exceeds the budget: after the first \<open>timeout div interval + 1\<close> statuses and no more.\<close>

theorem pollTransformationJob_times_out:
  assumes interval: "0 < transformationJobPollingIntervalSeconds c"
    and running: "\<forall>e \<in> set es. stillRunning c validStates e"
    and notCancelled: "\<forall>n. \<not> cancelledAtRead w n"
    and enough: "transformationJobTimeoutSeconds c div transformationJobPollingIntervalSeconds c < length es"
  shows "fst (pollTransformationJob c jid validStates es w) = Some (Inl (Error ''Job timed out'')) \<and>
         observedStatuses (snd (pollTransformationJob c jid validStates es w)) =
           observedStatuses w @
           map statusOf (take (transformationJobTimeoutSeconds c div transformationJobPollingIntervalSeconds c + 1) es)"
proof -
  let ?i = "transformationJobPollingIntervalSeconds c"
  let ?T = "transformationJobTimeoutSeconds c"
  let ?n = "?T div ?i"
  obtain e rest where split: "drop ?n es = e # rest"
    using enough by (cases "drop ?n es") simp_all
  have es: "es = take ?n es @ e # rest"
    using split by (metis append_take_drop_id)
  have len: "length (take ?n es) = ?n"
    using enough by simp
  have run1: "\<forall>x \<in> set (take ?n es). stillRunning c validStates x"
    using running by (meson in_set_takeD)
  have e: "stillRunning c validStates e"
    using running es by (metis in_set_conv_decomp)
  have le: "0 + length (take ?n es) * ?i \<le> ?T"
    unfolding len by simp
  obtain w' where w':
    "pollLoop c jid validStates (take ?n es @ e # rest) 0 w =
       pollLoop c jid validStates (e # rest) (0 + length (take ?n es) * ?i) w'"
    "cancelledAtRead w' = cancelledAtRead w"
    "observedStatuses w' = observedStatuses w @ map statusOf (take ?n es)"
    using pollLoop_running_prefix[OF run1 notCancelled le, of jid "e # rest"] by blast
  from e obtain r where r: "getTransformation e = Inr r"
    "jobStatus r \<notin> set validStates" "jobStatus r \<notin> set (pausedStates c)"
    "jobStatus r \<notin> set (failureStates c)" "roundReturns (hil e)"
    by (auto simp: stillRunning_def split: sum.splits)
  have nc: "\<forall>n. \<not> cancelledAtRead w' n"
    using notCancelled w'(2) by simp
  note step = pollIteration_goes_on[OF nc r, of jid "?n * ?i"]
  have over: "?n * ?i + ?i > ?T"
    using interval by (metis add.commute dividend_less_div_times mult.commute)
  obtain res w'' where it: "pollIteration c jid validStates e (?n * ?i) w' = (res, w'')"
    by (cases "pollIteration c jid validStates e (?n * ?i) w'")
  have res: "res = Inl (Error ''Job timed out'')"
    using step(1) it over by simp
  have tl: "observedStatuses w'' = observedStatuses w' @ [statusOf e]"
    using step(3) it r(1) by (simp add: statusOf_def)
  have "pollLoop c jid validStates (e # rest) (?n * ?i) w' = (Some (Inl (Error ''Job timed out'')), w'')"
    using it res by simp
  then have "pollTransformationJob c jid validStates es w = (Some (Inl (Error ''Job timed out'')), w'')"
    using w'(1) es len by (simp add: pollTransformationJob_def)
  moreover have "take (?n + 1) es = take ?n es @ [e]"
    using split by (metis Suc_eq_plus1 enough hd_drop_conv_nth list.sel(1) take_Suc_conv_app_nth)
  ultimately show ?thesis
    using tl w'(3) by simp
qed

theorem pollTransformationJob_times_out_witness:
  "fst (pollTransformationJob exampleConstants ''job-1'' [''COMPLETED'']
          (replicate 721 (answer ''TRANSFORMING'' None)) idleWorld) = Some (Inl (Error ''Job timed out'')) \<and>
   length (observedStatuses (snd (pollTransformationJob exampleConstants ''job-1'' [''COMPLETED'']
          (replicate 721 (answer ''TRANSFORMING'' None)) idleWorld))) = 721 \<and>
   fst (pollTransformationJob exampleConstants ''job-1'' [''COMPLETED'']
          (replicate 800 ((answer ''TRANSFORMING'' None)\<lparr>hil := buildRound\<rparr>)) idleWorld) =
     Some (Inl (Error ''Job timed out''))"
proof -
  have run: "\<forall>e \<in> set (replicate 721 (answer ''TRANSFORMING'' None)). stillRunning exampleConstants [''COMPLETED''] e"
    by (simp add: answer_def stillRunning_def roundReturns_def quietRound_def exampleConstants_def)
  have run': "\<forall>e \<in> set (replicate 800 ((answer ''TRANSFORMING'' None)\<lparr>hil := buildRound\<rparr>)).
      stillRunning exampleConstants [''COMPLETED''] e"
    by (simp add: answer_def stillRunning_def roundReturns_def quietRound_def buildRound_def
        exampleConstants_def firstArtifact_def signalsDownload_def truthy_def)
  have nc: "\<forall>n. \<not> cancelledAtRead idleWorld n"
    by (simp add: idleWorld_def)
  have i: "0 < transformationJobPollingIntervalSeconds exampleConstants"
    "transformationJobTimeoutSeconds exampleConstants div transformationJobPollingIntervalSeconds exampleConstants
       < length (replicate 721 (answer ''TRANSFORMING'' None))"
    "transformationJobTimeoutSeconds exampleConstants div transformationJobPollingIntervalSeconds exampleConstants
       < length (replicate 800 ((answer ''TRANSFORMING'' None)\<lparr>hil := buildRound\<rparr>))"
    by (simp_all add: exampleConstants_def)
  have o: "observedStatuses idleWorld = []"
    by (simp add: observedStatuses_def idleWorld_def)
  have n: "transformationJobTimeoutSeconds exampleConstants div transformationJobPollingIntervalSeconds exampleConstants = 720"
    by (simp add: exampleConstants_def)
  from pollTransformationJob_times_out[OF i(1) run nc i(2), of "''job-1''"]
    pollTransformationJob_times_out[OF i(1) run' nc i(3), of "''job-1''"]
  show ?thesis
    by (simp add: o n)
qed

lemma pollLoop_record:
  "\<exists>obs. observedStatuses (snd (pollLoop c jid validStates es t w)) = observedStatuses w @ obs \<and>
         statusChanges (snd (pollLoop c jid validStates es t w)) =
           statusChanges w @ expectedChanges (polledJobStatus w) obs \<and>
         roundsStarted (snd (pollLoop c jid validStates es t w)) \<le> roundsStarted w + length obs"
proof (induction es arbitrary: t w)
  case Nil
  show ?case by (rule exI[of _ "[]"]) simp
next
  case (Cons e es)
  obtain res w1 where it: "pollIteration c jid validStates e t w = (res, w1)"
    by (cases "pollIteration c jid validStates e t w")
  note rec = pollIteration_record[of c jid validStates e t w, unfolded it, simplified]
  let ?obs1 = "iterationObserved e w"
  show ?case
  proof (cases "\<exists>t'. res = Inr (Continue t')")
    case True
    then obtain t' where res: "res = Inr (Continue t')" by blast
    have p1: "polledJobStatus w1 = last (polledJobStatus w # ?obs1)"
      using rec(4)[of t'] res by simp
    from Cons.IH[of t' w1] obtain obs2 where obs2:
      "observedStatuses (snd (pollLoop c jid validStates es t' w1)) = observedStatuses w1 @ obs2"
      "statusChanges (snd (pollLoop c jid validStates es t' w1)) =
         statusChanges w1 @ expectedChanges (polledJobStatus w1) obs2"
      "roundsStarted (snd (pollLoop c jid validStates es t' w1)) \<le> roundsStarted w1 + length obs2"
      by blast
    have loop: "pollLoop c jid validStates (e # es) t w = pollLoop c jid validStates es t' w1"
      using it res by simp
    show ?thesis
      unfolding loop
      apply (rule exI[of _ "?obs1 @ obs2"])
      using obs2 rec(1-3) p1
      by (simp add: expectedChanges_append del: last.simps)
  next
    case False
    then have loop: "snd (pollLoop c jid validStates (e # es) t w) = w1"
      using it by (auto split: sum.splits iteration.splits)
    show ?thesis
      unfolding loop
      apply (rule exI[of _ "?obs1"])
      using rec(1-3) by simp
  qed
qed

text \<open>C2, a counterexample to the claim as it is stated. The status call answers \<^verbatim>\<open>TRANSFORMING\<close> twice and then
  \<^verbatim>\<open>COMPLETED\<close>. The status change to \<^verbatim>\<open>TRANSFORMING\<close> is reported once, for the first
  observation only; but the client-side build round is entered twice, the second time
  in the iteration that observes the same plan-generated status again. When the plan
  awaits a client action both times, the build itself runs twice.\<close>

theorem pollTransformationJob_round_repeated_counterexample:
  "observedStatuses (snd (pollTransformationJob exampleConstants ''job-1'' [''COMPLETED'']
      [answer ''TRANSFORMING'' None, answer ''TRANSFORMING'' None, answer ''COMPLETED'' None] idleWorld)) =
     [''TRANSFORMING'', ''TRANSFORMING'', ''COMPLETED''] \<and>
   statusChanges (snd (pollTransformationJob exampleConstants ''job-1'' [''COMPLETED'']
      [answer ''TRANSFORMING'' None, answer ''TRANSFORMING'' None, answer ''COMPLETED'' None] idleWorld)) =
     [(''TRANSFORMING'', []), (''COMPLETED'', ''TRANSFORMING'')] \<and>
   roundsStarted (snd (pollTransformationJob exampleConstants ''job-1'' [''COMPLETED'']
      [answer ''TRANSFORMING'' None, answer ''TRANSFORMING'' None, answer ''COMPLETED'' None] idleWorld)) = 2 \<and>
   filter (\<lambda>ev. ev = SpawnSync ''mvn'' [''test''] ''/tmp/originalCopy'')
     (trace (snd (pollTransformationJob exampleConstants ''job-1'' [''COMPLETED'']
        [(answer ''TRANSFORMING'' None)\<lparr>hil := buildRound\<rparr>, (answer ''TRANSFORMING'' None)\<lparr>hil := buildRound\<rparr>,
         answer ''COMPLETED'' None] idleWorld))) =
     [SpawnSync ''mvn'' [''test''] ''/tmp/originalCopy'', SpawnSync ''mvn'' [''test''] ''/tmp/originalCopy'']"
  by (simp add: pollTransformationJob_def pollIteration_def recordStatus_def recordFailureReason_def
      finishIteration_def processAwaitingClientActionStatus_def getClientInstructionArtifactId_def
      getTransformationSteps_def throwIfCancelled_def andThen_def catch_def sleep_def emit_def
      extractClientInstructions_def processClientInstructions_def runClientSideBuild_def
      runClientSideBuildCallback_def spawnClientSideBuild_def resumeTransformationJob_def
      firstArtifact_def signalsDownload_def
      setJobFailureMetadata_def pollingIntervalMs_def truthy_def Let_def
      answer_def quietRound_def buildRound_def exampleConstants_def idleWorld_def
      observedStatuses_def statusChanges_def roundsStarted_def)

text \<open>C2, as the code has it. In every run of the poll loop, started with an empty trace, the status
  changes reported are exactly those of the sequence of statuses observed: a status is
  reported when it differs from the status polled before it, and never when it repeats
  it. The client-side build round is entered at most once for each status observation;
  and in each iteration it is entered exactly when the status observed is plan-generated
  and not valid for the caller and no build authorization is pending, whatever status was
  observed before.\<close>

theorem pollTransformationJob_status_changes:
  assumes "trace w = []"
  shows "statusChanges (snd (pollTransformationJob c jid validStates es w)) =
           expectedChanges (polledJobStatus w) (observedStatuses (snd (pollTransformationJob c jid validStates es w))) \<and>
         roundsStarted (snd (pollTransformationJob c jid validStates es w)) \<le>
           length (observedStatuses (snd (pollTransformationJob c jid validStates es w))) \<and>
         roundsStarted (snd (pollIteration c jid validStates e t w')) =
           roundsStarted w' + (if entersRound c validStates e w' then 1 else 0)"
  using pollLoop_record[of c jid validStates es 0 w] assms pollIteration_rounds[of c jid validStates e t w']
  by (auto simp: pollTransformationJob_def observedStatuses_def statusChanges_def roundsStarted_def)

theorem pollTransformationJob_status_changes_witness:
  "statusChanges (snd (pollTransformationJob exampleConstants ''job-1'' [''COMPLETED'']
      [answer ''TRANSFORMING'' None, answer ''TRANSFORMING'' None] idleWorld)) =
     expectedChanges [] (observedStatuses (snd (pollTransformationJob exampleConstants ''job-1'' [''COMPLETED'']
      [answer ''TRANSFORMING'' None, answer ''TRANSFORMING'' None] idleWorld))) \<and>
   roundsStarted (snd (pollTransformationJob exampleConstants ''job-1'' [''COMPLETED'']
      [answer ''TRANSFORMING'' None, answer ''TRANSFORMING'' None] idleWorld)) \<le>
     length (observedStatuses (snd (pollTransformationJob exampleConstants ''job-1'' [''COMPLETED'']
      [answer ''TRANSFORMING'' None, answer ''TRANSFORMING'' None] idleWorld))) \<and>
   roundsStarted (snd (pollIteration exampleConstants ''job-1'' [''COMPLETED''] (answer ''TRANSFORMING'' None) 0
      (idleWorld\<lparr>polledJobStatus := ''TRANSFORMING''\<rparr>))) = 1"
  using pollTransformationJob_status_changes[of idleWorld exampleConstants "''job-1''" "[''COMPLETED'']"
      "[answer ''TRANSFORMING'' None, answer ''TRANSFORMING'' None]" "answer ''TRANSFORMING'' None" 0
      "idleWorld\<lparr>polledJobStatus := ''TRANSFORMING''\<rparr>"]
  by (simp add: idleWorld_def entersRound_def answer_def exampleConstants_def roundsStarted_def)

text \<open>C4. In a poll iteration that gets its answer (the flag is not set at its check and
  the status call returns) and whose answer carries a failure reason, the failure
  messages of the job at the end of the iteration, however it ends, are: the dedicated
  monthly-limit messages when the reason contains
  \<^verbatim>\<open>Monthly aggregated Lines of Code limit breached\<close>; else the dedicated lines-limit
  messages when it contains \<^verbatim>\<open>Lines of Code limit breached for job\<close>; else the generic
  failure messages, each followed by a blank and the reason.\<close>

theorem pollIteration_failure_messages:
  assumes "\<not> cancelledAtRead w (flagReads w)" and "getTransformation e = Inr r" and "reason r = Some m"
  shows "jobFailureErrorChatMessage (snd (pollIteration c jid validStates e t w)) =
           Some (if str_includes m ''Monthly aggregated Lines of Code limit breached''
                 then failedToStartJobMonthlyLimitChatMessage c
                 else if str_includes m ''Lines of Code limit breached for job''
                 then failedToStartJobLinesLimitChatMessage c
                 else failedToCompleteJobGenericChatMessage c @ '' '' @ m) \<and>
         jobFailureErrorNotification (snd (pollIteration c jid validStates e t w)) =
           Some (if str_includes m ''Monthly aggregated Lines of Code limit breached''
                 then failedToStartJobMonthlyLimitNotification c
                 else if str_includes m ''Lines of Code limit breached for job''
                 then failedToStartJobLinesLimitNotification c
                 else failedToCompleteJobGenericNotification c @ '' '' @ m)"
  using assms
  unfolding pollIteration_def throwIfCancelled_def andThen_alt Let_def
  by (simp add: round_projections messages_recordStatus split: sum.splits)

theorem pollIteration_failure_messages_witness:
  "jobFailureErrorChatMessage (snd (pollIteration exampleConstants ''job-1'' [''COMPLETED'']
      (answer ''FAILED'' (Some ''Monthly aggregated Lines of Code limit breached for this account'')) 0 idleWorld)) =
     Some ''You have reached the monthly limit'' \<and>
   jobFailureErrorNotification (snd (pollIteration exampleConstants ''job-1'' [''COMPLETED'']
      (answer ''FAILED'' (Some ''Monthly aggregated Lines of Code limit breached for this account'')) 0 idleWorld)) =
     Some ''Monthly limit reached'' \<and>
   jobFailureErrorChatMessage (snd (pollIteration exampleConstants ''job-1'' [''COMPLETED'']
      (answer ''FAILED'' (Some ''Internal error'')) 0 idleWorld)) =
     Some ''I could not complete the transformation. Internal error''"
  using pollIteration_failure_messages[of idleWorld
      "answer ''FAILED'' (Some ''Monthly aggregated Lines of Code limit breached for this account'')"
      "\<lparr>jobStatus = ''FAILED'', reason = Some ''Monthly aggregated Lines of Code limit breached for this account'',
        requestId = Some ''request-1''\<rparr>"
      "''Monthly aggregated Lines of Code limit breached for this account''"
      exampleConstants "''job-1''" "[''COMPLETED'']" 0]
    pollIteration_failure_messages[of idleWorld
      "answer ''FAILED'' (Some ''Internal error'')"
      "\<lparr>jobStatus = ''FAILED'', reason = Some ''Internal error'', requestId = Some ''request-1''\<rparr>"
      "''Internal error''" exampleConstants "''job-1''" "[''COMPLETED'']" 0]
  by (simp add: answer_def idleWorld_def exampleConstants_def)



end
